theory Spec2Isabelle
  imports Complex_Main
begin

section \<open>The autocomplete widget: data model\<close>

text \<open>
  The repository ships the widget twice: \<^verbatim>\<open>src/autocomplete.ts\<close> and the hand-maintained
  \<^verbatim>\<open>src/autocomplete.js\<close>. The two agree on most methods and differ in how a fetched
  result is guarded, in how the panel is positioned and in which scroll listeners are
  registered. Every function that differs takes the build as its first argument.
\<close>

datatype build = TypeScript | JavaScript

text \<open>
  What \<^verbatim>\<open>this.suggestions\<close> can hold at run time: an array of items, or \<^verbatim>\<open>null\<close> /
  \<^verbatim>\<open>undefined\<close> when the suggestion source hands back no array. Other non-array values are
  not modelled.
\<close>

datatype 'a fetched = Arr "'a list" | Nullish

text \<open>
  A call of \<^verbatim>\<open>getSuggestions\<close> either throws at once or returns a value or promise; the
  promise later fulfils with a value or rejects.
\<close>

datatype 'a settled = Fulfilled "'a fetched" | Rejected

datatype 'a outcome = Throws | Returns "'a settled"

datatype markup = TextContent string | InnerHTML string

datatype 'a renderer = DefaultRenderer | CustomRenderer "'a \<Rightarrow> markup"

text \<open>
  The options after the defaults have been merged in. \<open>formatSuggestionHTML = None\<close> is the
  default formatter, which delegates to \<open>formatSelectedItem\<close>; \<open>sanitizeHTML\<close> is the
  sanitizer in force (the regular expression of the default one is not modelled). The
  three numeric options are JavaScript numbers, taken here as integers. The class names
  and the icon markup play no part in the behaviour and are left out; \<open>onSelect\<close> is
  observed through the call trace below. Apart from the suggestion source, the functions
  the caller supplies are taken to return normally.
\<close>

record 'a options =
  getSuggestions :: "string \<Rightarrow> 'a outcome"
  formatSelectedItem :: "'a \<Rightarrow> string"
  formatSuggestionHTML :: "('a \<Rightarrow> string) option"
  maxSuggestions :: int
  minChars :: int
  debounceTime :: int
  showDropdownIcon :: bool
  allowHTML :: bool
  sanitizeHTML :: "string \<Rightarrow> string"
  renderSuggestion :: "'a renderer"

text \<open>Every invocation of a caller-supplied function, and of \<^verbatim>\<open>console.error\<close>, in order.\<close>

datatype 'a call =
    GetSuggestions string
  | FormatSelectedItem 'a
  | FormatSuggestionHTML 'a
  | SanitizeHTML string
  | OnSelect 'a
  | ConsoleError

datatype task = FetchTask string | HideTask

datatype key = ArrowDown | ArrowUp | Enter | Escape | OtherKey

datatype error = TypeError | UndefinedItem

datatype css_position = Absolute | Fixed

datatype node = Window | Body | InputElement | Wrapper | DropdownIcon | Container | Other nat

datatype handler =
  HandleInput | HandleKeyDown | HandlePositionUpdate | BlurHandler | IconClickHandler

text \<open>
  A registered listener. \<open>ident\<close> is the identity of the function object: the DOM removes a
  listener only when target, event type and function object all match.
\<close>

record listener =
  target :: node
  etype :: string
  handler :: handler
  ident :: nat

text \<open>One child of the panel: the item its click handler closes over, and what was rendered.\<close>

record 'a element =
  item :: 'a
  body :: markup
  active :: bool

text \<open>The measurements \<^verbatim>\<open>updateContainerPosition\<close> reads from the browser.\<close>

record layout =
  rectTop :: real
  rectBottom :: real
  rectLeft :: real
  rectWidth :: real
  innerHeight :: real
  scrollX :: real
  scrollY :: real
  offsetHeight :: real

text \<open>
  The widget object together with the parts of the browser it touches: the panel, the
  input field, the timer table, the promises still pending, the document tree, the
  listener table and the call trace.
\<close>

record 'a state =
  suggestions :: "'a fetched"
  activeIndex :: int
  debounceTimer :: "nat option"
  wrapper :: bool
  dropdownIcon :: bool
  displayNone :: bool
  elements :: "'a element list"
  cssPosition :: css_position
  styleWidth :: "real option"
  styleLeft :: "real option"
  styleTop :: "real option"
  classAbove :: bool
  classBelow :: bool
  iconActive :: bool
  inputValue :: string
  focused :: bool
  paddingRight :: string
  now :: nat
  timers :: "(nat \<times> nat \<times> task) list"
  nextTimer :: nat
  inflight :: "'a settled list"
  parent :: "node \<Rightarrow> node option"
  kids :: "node \<Rightarrow> node list"
  listeners :: "listener list"
  nextFn :: nat
  calls :: "'a call list"

section \<open>Browser primitives\<close>

text \<open>
  \<^verbatim>\<open>String.prototype.trim\<close>. Strings are lists of 8-bit characters, that is, text whose
  code units lie below 256. Among these ECMAScript counts as white space or line
  terminator, and \<^verbatim>\<open>trim\<close> strips, the space, the tab, the line feed, the vertical tab, the
  form feed, the carriage return and the no-break space U+00A0.
\<close>

definition isWhiteSpace :: "char \<Rightarrow> bool" where
  "isWhiteSpace c \<longleftrightarrow>
     c \<in> set [CHR '' '', CHR 0x09, CHR 0x0A, CHR 0x0B, CHR 0x0C, CHR 0x0D, CHR 0xA0]"

definition trim :: "string \<Rightarrow> string" where
  "trim v = rev (dropWhile isWhiteSpace (rev (dropWhile isWhiteSpace v)))"

text \<open>
  \<^verbatim>\<open>xs.slice(0, e)\<close>: a negative end counts from the back of the array, a non-negative one
  is capped at the length.
\<close>

definition slice :: "'a list \<Rightarrow> int \<Rightarrow> 'a list" where
  "slice xs e = (if e < 0 then take (nat (int (length xs) + e)) xs else take (nat e) xs)"

text \<open>
  The delay of \<^verbatim>\<open>window.setTimeout\<close> is a Web IDL \<^verbatim>\<open>long\<close>: the number passed is reduced
  modulo \<^verbatim>\<open>2^32\<close> to a signed 32-bit integer, so that \<^verbatim>\<open>2^31\<close> becomes \<^verbatim>\<open>-2^31\<close>, and a
  negative delay then counts as zero. A delay from \<open>0\<close> to \<^verbatim>\<open>2^31 - 1\<close> is taken as it is.
\<close>

definition toInt32 :: "int \<Rightarrow> int" where
  "toInt32 n = (n + 2147483648) mod 4294967296 - 2147483648"

definition timerDelay :: "int \<Rightarrow> nat" where
  "timerDelay delay = nat (toInt32 delay)"

text \<open>
  \<^verbatim>\<open>window.setTimeout\<close> hands out a fresh handle and files the callback under its due
  time. \<^verbatim>\<open>window.clearTimeout\<close> drops the entry, if it is still there.
\<close>

definition setTimeout :: "task \<Rightarrow> int \<Rightarrow> 'a state \<Rightarrow> nat \<times> 'a state" where
  "setTimeout k delay s =
     (nextTimer s,
      s\<lparr>timers := timers s @ [(nextTimer s, now s + timerDelay delay, k)],
        nextTimer := Suc (nextTimer s)\<rparr>)"

definition clearTimeout :: "nat \<Rightarrow> 'a state \<Rightarrow> 'a state" where
  "clearTimeout t s = s\<lparr>timers := filter (\<lambda>(i, due, k). i \<noteq> t) (timers s)\<rparr>"

section \<open>The widget's methods\<close>

text \<open>
  The constructor of the TypeScript build makes the panel \<^verbatim>\<open>position: absolute\<close>, the one of
  the JavaScript build \<^verbatim>\<open>position: fixed\<close>.
\<close>

definition panelPosition :: "build \<Rightarrow> css_position" where
  "panelPosition b = (case b of TypeScript \<Rightarrow> Absolute | JavaScript \<Rightarrow> Fixed)"

definition hide :: "'a state \<Rightarrow> 'a state" where
  "hide s =
     s\<lparr>displayNone := True, activeIndex := - 1,
       iconActive := (if dropdownIcon s then False else iconActive s)\<rparr>"

definition updateContainerPosition :: "build \<Rightarrow> layout \<Rightarrow> 'a state \<Rightarrow> 'a state" where
  "updateContainerPosition b lay s =
     (let containerHeight = offsetHeight lay;
          spaceBelow = innerHeight lay - rectBottom lay;
          spaceAbove = rectTop lay;
          dx = (case b of TypeScript \<Rightarrow> scrollX lay | JavaScript \<Rightarrow> 0);
          dy = (case b of TypeScript \<Rightarrow> scrollY lay | JavaScript \<Rightarrow> 0);
          s1 = s\<lparr>styleWidth := Some (rectWidth lay),
                 cssPosition := (case b of TypeScript \<Rightarrow> cssPosition s | JavaScript \<Rightarrow> Fixed),
                 styleLeft := Some (rectLeft lay + dx)\<rparr>
      in if spaceBelow < containerHeight \<and> spaceAbove > spaceBelow
         then s1\<lparr>styleTop := Some (rectTop lay + dy - containerHeight),
                 classAbove := True, classBelow := False\<rparr>
         else s1\<lparr>styleTop := Some (rectBottom lay + dy),
                 classBelow := True, classAbove := False\<rparr>)"

definition show_panel :: "build \<Rightarrow> layout \<Rightarrow> 'a state \<Rightarrow> 'a state" where
  "show_panel b lay s =
     (let s1 = updateContainerPosition b lay (s\<lparr>displayNone := False\<rparr>)
      in s1\<lparr>iconActive := (if dropdownIcon s1 then True else iconActive s1)\<rparr>)"

definition handlePositionUpdate :: "build \<Rightarrow> layout \<Rightarrow> 'a state \<Rightarrow> 'a state" where
  "handlePositionUpdate b lay s =
     (if \<not> displayNone s then updateContainerPosition b lay s else s)"

text \<open>
  The renderer for one suggestion: the element's content and the caller-supplied
  functions it invoked on the way.
\<close>

definition renderElement :: "'a options \<Rightarrow> 'a \<Rightarrow> 'a element \<times> 'a call list" where
  "renderElement opts x =
     (case renderSuggestion opts of
        CustomRenderer f \<Rightarrow> (\<lparr>item = x, body = f x, active = False\<rparr>, [])
      | DefaultRenderer \<Rightarrow>
          if allowHTML opts then
            (let (htmlContent, cs) =
                   (case formatSuggestionHTML opts of
                      Some f \<Rightarrow> (f x, [FormatSuggestionHTML x])
                    | None \<Rightarrow> (formatSelectedItem opts x,
                               [FormatSuggestionHTML x, FormatSelectedItem x]))
             in (\<lparr>item = x, body = InnerHTML (sanitizeHTML opts htmlContent), active = False\<rparr>,
                 cs @ [SanitizeHTML htmlContent]))
          else (\<lparr>item = x, body = TextContent (formatSelectedItem opts x), active = False\<rparr>,
                [FormatSelectedItem x]))"

text \<open>
  \<^verbatim>\<open>render\<close> empties the panel and resets the active index before it walks
  \<^verbatim>\<open>this.suggestions\<close>; \<^verbatim>\<open>forEach\<close> on \<^verbatim>\<open>null\<close> raises with those two writes done.
\<close>

definition render :: "'a options \<Rightarrow> 'a state \<Rightarrow> (error \<times> 'a state) + 'a state" where
  "render opts s =
     (let s1 = s\<lparr>elements := [], activeIndex := - 1\<rparr>
      in case suggestions s1 of
           Nullish \<Rightarrow> Inl (TypeError, s1)
         | Arr xs \<Rightarrow>
             Inr (s1\<lparr>elements := map (fst \<circ> renderElement opts) xs,
                     calls := calls s1 @ concat (map (snd \<circ> renderElement opts) xs)\<rparr>))"

definition highlightActive :: "'a state \<Rightarrow> 'a state" where
  "highlightActive s =
     s\<lparr>elements :=
         map (\<lambda>(index, el). el\<lparr>active := (int index = activeIndex s)\<rparr>)
             (enumerate 0 (elements s))\<rparr>"

definition selectSuggestion :: "'a options \<Rightarrow> 'a \<Rightarrow> 'a state \<Rightarrow> 'a state" where
  "selectSuggestion opts x s =
     hide (s\<lparr>inputValue := formatSelectedItem opts x,
             calls := calls s @ [FormatSelectedItem x, OnSelect x]\<rparr>)"

text \<open>The two listeners \<^verbatim>\<open>render\<close> attaches to the element built for index \<open>i\<close>.\<close>

definition elementClick :: "'a options \<Rightarrow> nat \<Rightarrow> 'a state \<Rightarrow> 'a state" where
  "elementClick opts i s = selectSuggestion opts (item (elements s ! i)) s"

definition elementMouseEnter :: "nat \<Rightarrow> 'a state \<Rightarrow> 'a state" where
  "elementMouseEnter i s = highlightActive (s\<lparr>activeIndex := int i\<rparr>)"

text \<open>
  \<^verbatim>\<open>handleKeyDown\<close>: the new state and whether \<^verbatim>\<open>event.preventDefault()\<close> was called. Reading
  \<^verbatim>\<open>length\<close> or an index of \<^verbatim>\<open>null\<close> raises; an index past the end yields \<^verbatim>\<open>undefined\<close>, which
  the item type does not contain.
\<close>

definition handleKeyDown :: "'a options \<Rightarrow> key \<Rightarrow> 'a state \<Rightarrow> error + ('a state \<times> bool)" where
  "handleKeyDown opts k s =
     (if displayNone s then Inr (s, False)
      else case k of
        ArrowDown \<Rightarrow>
          (case suggestions s of
             Nullish \<Rightarrow> Inl TypeError
           | Arr xs \<Rightarrow>
               Inr (highlightActive
                      (s\<lparr>activeIndex := min (activeIndex s + 1) (int (length xs) - 1)\<rparr>), True))
      | ArrowUp \<Rightarrow>
          Inr (highlightActive (s\<lparr>activeIndex := max (activeIndex s - 1) (- 1)\<rparr>), True)
      | Enter \<Rightarrow>
          if activeIndex s \<ge> 0 then
            (case suggestions s of
               Nullish \<Rightarrow> Inl TypeError
             | Arr xs \<Rightarrow>
                 if activeIndex s < int (length xs)
                 then Inr (selectSuggestion opts (xs ! nat (activeIndex s)) s, True)
                 else Inl UndefinedItem)
          else Inr (s, False)
      | Escape \<Rightarrow> Inr (hide s, True)
      | OtherKey \<Rightarrow> Inr (s, False))"

text \<open>
  \<^verbatim>\<open>handleInput\<close> runs to its end without suspending: it cancels the pending debounce timer
  and either schedules the fetch or hides the panel.
\<close>

definition handleInput :: "'a options \<Rightarrow> 'a state \<Rightarrow> 'a state" where
  "handleInput opts s =
     (let v = trim (inputValue s);
          s1 = (case debounceTimer s of None \<Rightarrow> s | Some t \<Rightarrow> clearTimeout t s)
      in if length v = 0 \<and> focused s then
           (let (t, s2) = setTimeout (FetchTask []) (debounceTime opts) s1
            in s2\<lparr>debounceTimer := Some t\<rparr>)
         else if int (length v) < minChars opts then hide s1
         else
           (let (t, s2) = setTimeout (FetchTask v) (debounceTime opts) s1
            in s2\<lparr>debounceTimer := Some t\<rparr>))"

text \<open>
  The timer callback scheduled by \<^verbatim>\<open>handleInput\<close> is split at its \<^verbatim>\<open>await\<close>. Up to the
  \<^verbatim>\<open>await\<close> it calls the suggestion source: a source that throws lands in the \<^verbatim>\<open>catch\<close>
  block at once, any other result is a promise that settles later.
\<close>

definition catchError :: "'a state \<Rightarrow> 'a state" where
  "catchError s = hide (s\<lparr>calls := calls s @ [ConsoleError]\<rparr>)"

definition fetchStart :: "'a options \<Rightarrow> string \<Rightarrow> 'a state \<Rightarrow> 'a state" where
  "fetchStart opts q s =
     (let s1 = s\<lparr>calls := calls s @ [GetSuggestions q]\<rparr>
      in case getSuggestions opts q of
           Throws \<Rightarrow> catchError s1
         | Returns p \<Rightarrow> s1\<lparr>inflight := inflight s1 @ [p]\<rparr>)"

text \<open>
  The rest of the \<^verbatim>\<open>try\<close> block, once the promise has fulfilled with \<open>r\<close>. The TypeScript
  build calls \<^verbatim>\<open>slice\<close> on whatever arrived; the JavaScript build first tests
  \<^verbatim>\<open>this.suggestions && Array.isArray(this.suggestions)\<close> and skips the block otherwise.
  \<open>Inl\<close> is an exception raised inside the block, with the state it left behind.
\<close>

definition fetchBody ::
  "build \<Rightarrow> 'a options \<Rightarrow> layout \<Rightarrow> 'a fetched \<Rightarrow> 'a state \<Rightarrow> (error \<times> 'a state) + 'a state" where
  "fetchBody b opts lay r s =
     (let s1 = s\<lparr>suggestions := r\<rparr>
      in case r of
           Nullish \<Rightarrow> (case b of TypeScript \<Rightarrow> Inl (TypeError, s1) | JavaScript \<Rightarrow> Inr s1)
         | Arr xs \<Rightarrow>
             (let ys = slice xs (maxSuggestions opts);
                  s2 = s1\<lparr>suggestions := Arr ys\<rparr>
              in if length ys > 0 then
                   (case render opts s2 of
                      Inl e \<Rightarrow> Inl e
                    | Inr s3 \<Rightarrow> Inr (show_panel b lay s3))
                 else Inr (hide s2)))"

text \<open>The continuation after the \<^verbatim>\<open>await\<close>, with the \<^verbatim>\<open>catch\<close> block around it.\<close>

definition land :: "build \<Rightarrow> 'a options \<Rightarrow> layout \<Rightarrow> 'a settled \<Rightarrow> 'a state \<Rightarrow> 'a state" where
  "land b opts lay p s =
     (case p of
        Rejected \<Rightarrow> catchError s
      | Fulfilled r \<Rightarrow>
          (case fetchBody b opts lay r s of
             Inl (e, s') \<Rightarrow> catchError s'
           | Inr s' \<Rightarrow> s'))"

definition runTask :: "'a options \<Rightarrow> task \<Rightarrow> 'a state \<Rightarrow> 'a state" where
  "runTask opts k s = (case k of FetchTask q \<Rightarrow> fetchStart opts q s | HideTask \<Rightarrow> hide s)"

text \<open>
  Time passes by \<open>d\<close> milliseconds: every timer that falls due runs, earliest first, timers
  due at the same instant in the order they were set.
\<close>

definition advance :: "'a options \<Rightarrow> nat \<Rightarrow> 'a state \<Rightarrow> 'a state" where
  "advance opts d s =
     (let t = now s + d;
          ready = sort_key (\<lambda>(i, due, k). due) (filter (\<lambda>(i, due, k). due \<le> t) (timers s));
          s1 = s\<lparr>now := t, timers := filter (\<lambda>(i, due, k). \<not> due \<le> t) (timers s)\<rparr>
      in foldl (\<lambda>s' (i, due, k). runTask opts k s') s1 ready)"

text \<open>The listeners \<^verbatim>\<open>setupEventListeners\<close> registers as arrow functions.\<close>

definition blurHandler :: "'a state \<Rightarrow> 'a state" where
  "blurHandler s = snd (setTimeout HideTask 150 s)"

definition focusInput :: "'a options \<Rightarrow> 'a state \<Rightarrow> 'a state" where
  "focusInput opts s = (if focused s then s else handleInput opts (s\<lparr>focused := True\<rparr>))"

definition iconClick :: "'a options \<Rightarrow> 'a state \<Rightarrow> 'a state" where
  "iconClick opts s =
     (let s1 = focusInput opts s
      in if displayNone s1 then handleInput opts s1 else hide s1)"

section \<open>Events\<close>

text \<open>
  What the browser can deliver to an attached widget. \<open>Edit v\<close> is the user changing the
  field to \<open>v\<close> (an \<^verbatim>\<open>input\<close> event), \<open>Settle n lay\<close> the \<open>n\<close>-th pending promise settling
  while the page is laid out as \<open>lay\<close>, \<open>Reposition lay\<close> a resize or scroll event. Mouse
  events reach an element of the panel only while the panel is displayed, and the icon
  can be clicked only if it was created.
\<close>

datatype event =
    Edit string
  | Focus
  | Blur
  | KeyDown key
  | MouseEnter nat
  | Click nat
  | IconClick
  | Advance nat
  | Settle nat layout
  | Reposition layout

definition step :: "build \<Rightarrow> 'a options \<Rightarrow> event \<Rightarrow> 'a state \<Rightarrow> error + 'a state" where
  "step b opts ev s =
     (case ev of
        Edit v \<Rightarrow> Inr (handleInput opts (s\<lparr>inputValue := v\<rparr>))
      | Focus \<Rightarrow> Inr (handleInput opts (s\<lparr>focused := True\<rparr>))
      | Blur \<Rightarrow> Inr (blurHandler (s\<lparr>focused := False\<rparr>))
      | KeyDown k \<Rightarrow>
          (case handleKeyDown opts k s of Inl e \<Rightarrow> Inl e | Inr (s', prevented) \<Rightarrow> Inr s')
      | MouseEnter i \<Rightarrow>
          Inr (if \<not> displayNone s \<and> i < length (elements s) then elementMouseEnter i s else s)
      | Click i \<Rightarrow>
          Inr (if \<not> displayNone s \<and> i < length (elements s) then elementClick opts i s else s)
      | IconClick \<Rightarrow> Inr (if dropdownIcon s then iconClick opts s else s)
      | Advance d \<Rightarrow> Inr (advance opts d s)
      | Settle n lay \<Rightarrow>
          Inr (if n < length (inflight s)
               then land b opts lay (inflight s ! n)
                      (s\<lparr>inflight := take n (inflight s) @ drop (Suc n) (inflight s)\<rparr>)
               else s)
      | Reposition lay \<Rightarrow> Inr (handlePositionUpdate b lay s))"

fun run :: "build \<Rightarrow> 'a options \<Rightarrow> event list \<Rightarrow> 'a state \<Rightarrow> error + 'a state" where
  "run b opts [] s = Inr s"
| "run b opts (ev # evs) s =
     (case step b opts ev s of Inl e \<Rightarrow> Inl e | Inr s' \<Rightarrow> run b opts evs s')"

section \<open>Attachment and teardown\<close>

text \<open>
  The document tree is kept as a parent map and a child-list map, changed together by the
  three DOM operations the widget uses. A node that already has a parent is taken out of
  it before it is put elsewhere.
\<close>

definition removeChild :: "node \<Rightarrow> node \<Rightarrow> 'a state \<Rightarrow> 'a state" where
  "removeChild p c s =
     s\<lparr>kids := (kids s)(p := remove1 c (kids s p)), parent := (parent s)(c := None)\<rparr>"

definition detach :: "node \<Rightarrow> 'a state \<Rightarrow> 'a state" where
  "detach c s = (case parent s c of None \<Rightarrow> s | Some p \<Rightarrow> removeChild p c s)"

definition appendChild :: "node \<Rightarrow> node \<Rightarrow> 'a state \<Rightarrow> 'a state" where
  "appendChild p c s =
     (let s1 = detach c s
      in s1\<lparr>kids := (kids s1)(p := kids s1 p @ [c]), parent := (parent s1)(c := Some p)\<rparr>)"

fun place :: "node \<Rightarrow> node \<Rightarrow> node list \<Rightarrow> node list" where
  "place new ref [] = [new]"
| "place new ref (x # xs) = (if x = ref then new # x # xs else x # place new ref xs)"

definition insertBefore :: "node \<Rightarrow> node \<Rightarrow> node \<Rightarrow> 'a state \<Rightarrow> 'a state" where
  "insertBefore p new ref s =
     (let s1 = detach new s
      in s1\<lparr>kids := (kids s1)(p := place new ref (kids s1 p)),
            parent := (parent s1)(new := Some p)\<rparr>)"

text \<open>
  \<^verbatim>\<open>f.bind(this)\<close> and an arrow function both make a new function object; \<open>bind\<close> hands out
  its identity.
\<close>

definition bind :: "'a state \<Rightarrow> nat \<times> 'a state" where
  "bind s = (nextFn s, s\<lparr>nextFn := Suc (nextFn s)\<rparr>)"

definition addEventListener :: "node \<Rightarrow> string \<Rightarrow> handler \<Rightarrow> nat \<Rightarrow> 'a state \<Rightarrow> 'a state" where
  "addEventListener n ty h f s =
     (if \<exists>l \<in> set (listeners s). target l = n \<and> etype l = ty \<and> ident l = f then s
      else s\<lparr>listeners := listeners s @ [\<lparr>target = n, etype = ty, handler = h, ident = f\<rparr>]\<rparr>)"

definition removeEventListener :: "node \<Rightarrow> string \<Rightarrow> nat \<Rightarrow> 'a state \<Rightarrow> 'a state" where
  "removeEventListener n ty f s =
     s\<lparr>listeners :=
         filter (\<lambda>l. \<not> (target l = n \<and> etype l = ty \<and> ident l = f)) (listeners s)\<rparr>"

text \<open>\<^verbatim>\<open>x.addEventListener(ty, this.h.bind(this))\<close> and its \<^verbatim>\<open>removeEventListener\<close> twin.\<close>

definition addBound :: "node \<Rightarrow> string \<Rightarrow> handler \<Rightarrow> 'a state \<Rightarrow> 'a state" where
  "addBound n ty h s = (let (f, s1) = bind s in addEventListener n ty h f s1)"

definition removeBound :: "node \<Rightarrow> string \<Rightarrow> 'a state \<Rightarrow> 'a state" where
  "removeBound n ty s = (let (f, s1) = bind s in removeEventListener n ty f s1)"

definition setupDropdownIcon :: "'a state \<Rightarrow> 'a state" where
  "setupDropdownIcon s =
     (let s1 = s\<lparr>wrapper := True\<rparr>;
          s2 = (case parent s1 InputElement of
                  None \<Rightarrow> s1
                | Some p \<Rightarrow> insertBefore p Wrapper InputElement s1);
          s3 = appendChild Wrapper InputElement s2;
          s4 = s3\<lparr>dropdownIcon := True\<rparr>;
          s5 = appendChild Wrapper DropdownIcon s4
      in s5\<lparr>paddingRight := ''30px''\<rparr>)"

text \<open>
  The JavaScript build walks \<^verbatim>\<open>parentElement\<close> upwards from the input; the walk ends when
  a node has no parent.
\<close>

partial_function (option) addScrollListeners :: "node option \<Rightarrow> 'a state \<Rightarrow> 'a state option" where
  "addScrollListeners p s =
     (case p of
        None \<Rightarrow> Some s
      | Some n \<Rightarrow> addScrollListeners (parent s n) (addBound n ''scroll'' HandlePositionUpdate s))"

partial_function (option) removeScrollListeners :: "node option \<Rightarrow> 'a state \<Rightarrow> 'a state option" where
  "removeScrollListeners p s =
     (case p of
        None \<Rightarrow> Some s
      | Some n \<Rightarrow> removeScrollListeners (parent s n) (removeBound n ''scroll'' s))"

definition setupEventListeners :: "build \<Rightarrow> 'a state \<Rightarrow> 'a state option" where
  "setupEventListeners b s =
     (let s1 = addBound InputElement ''input'' HandleInput s;
          s2 = addBound InputElement ''focus'' HandleInput s1;
          s3 = addBound InputElement ''blur'' BlurHandler s2;
          s4 = (if dropdownIcon s3 then addBound DropdownIcon ''click'' IconClickHandler s3
                else s3);
          s5 = addBound InputElement ''keydown'' HandleKeyDown s4;
          s6 = addBound Window ''resize'' HandlePositionUpdate s5
      in case b of
           TypeScript \<Rightarrow> Some (addBound Window ''scroll'' HandlePositionUpdate s6)
         | JavaScript \<Rightarrow>
             (case addScrollListeners (parent s6 InputElement) s6 of
                None \<Rightarrow> None
              | Some s7 \<Rightarrow> Some (addBound Window ''scroll'' HandlePositionUpdate s7)))"

text \<open>
  The constructor, run on the browser as it is before attachment: it initialises the
  widget's fields, creates the hidden panel under \<^verbatim>\<open>document.body\<close>, wraps the input if the
  icon is wanted and registers the listeners. The widget has no timer, pending promise or
  recorded call yet.
\<close>

definition new_Autocomplete :: "build \<Rightarrow> 'a options \<Rightarrow> 'a state \<Rightarrow> 'a state option" where
  "new_Autocomplete b opts pg =
     (let s0 = pg\<lparr>suggestions := Arr [], activeIndex := - 1, debounceTimer := None,
                 wrapper := False, dropdownIcon := False, displayNone := True,
                 elements := [],
                 cssPosition := panelPosition b,
                 styleWidth := None, styleLeft := None, styleTop := None,
                 classAbove := False, classBelow := False, iconActive := False,
                 timers := [], inflight := [], calls := []\<rparr>;
          s1 = appendChild Body Container s0;
          s2 = (if showDropdownIcon opts then setupDropdownIcon s1 else s1)
      in setupEventListeners b s2)"

definition destroy :: "build \<Rightarrow> 'a state \<Rightarrow> 'a state option" where
  "destroy b s =
     (let s1 = (if wrapper s then
                  (let s' = s\<lparr>paddingRight := []\<rparr>
                   in case parent s' Wrapper of
                        None \<Rightarrow> s'
                      | Some p \<Rightarrow> removeChild p Wrapper (insertBefore p InputElement Wrapper s'))
                else s);
          s2 = (case parent s1 Container of None \<Rightarrow> s1 | Some p \<Rightarrow> removeChild p Container s1);
          s3 = removeBound InputElement ''input'' s2;
          s4 = removeBound InputElement ''focus'' s3;
          s5 = removeBound InputElement ''keydown'' s4
      in case b of
           TypeScript \<Rightarrow> Some (removeBound Window ''resize'' s5)
         | JavaScript \<Rightarrow>
             (case removeScrollListeners (parent s5 InputElement) s5 of
                None \<Rightarrow> None
              | Some s6 \<Rightarrow>
                  Some (removeBound Window ''resize'' (removeBound Window ''scroll'' s6))))"

declare addScrollListeners.simps [code]

declare removeScrollListeners.simps [code]

section \<open>Observations used by the properties\<close>

text \<open>
  Where the panel's edges lie in the viewport. A fixed box is placed in viewport
  coordinates; an absolutely positioned child of the body is placed in document
  coordinates, which the scroll offsets shift.
\<close>

definition viewportLeft :: "layout \<Rightarrow> 'a state \<Rightarrow> real option" where
  "viewportLeft lay s =
     (case cssPosition s of
        Fixed \<Rightarrow> styleLeft s
      | Absolute \<Rightarrow> map_option (\<lambda>x. x - scrollX lay) (styleLeft s))"

definition viewportTop :: "layout \<Rightarrow> 'a state \<Rightarrow> real option" where
  "viewportTop lay s =
     (case cssPosition s of
        Fixed \<Rightarrow> styleTop s
      | Absolute \<Rightarrow> map_option (\<lambda>y. y - scrollY lay) (styleTop s))"

text \<open>
  The panel is as wide as the input, starts at the input's left edge, and sits with its
  lower edge on the input's top when there is too little room below and more room above,
  with its upper edge on the input's bottom otherwise.
\<close>

definition placed :: "layout \<Rightarrow> 'a state \<Rightarrow> bool" where
  "placed lay s \<longleftrightarrow>
     styleWidth s = Some (rectWidth lay) \<and>
     viewportLeft lay s = Some (rectLeft lay) \<and>
     (if innerHeight lay - rectBottom lay < offsetHeight lay \<and>
         rectTop lay > innerHeight lay - rectBottom lay
      then classAbove s \<and> \<not> classBelow s \<and>
           viewportTop lay s = Some (rectTop lay - offsetHeight lay)
      else classBelow s \<and> \<not> classAbove s \<and>
           viewportTop lay s = Some (rectBottom lay))"

text \<open>
  What a committed selection of item \<open>x\<close> leaves behind: the input holds the formatted
  item, the formatter and then \<^verbatim>\<open>onSelect\<close> were each called once more, on \<open>x\<close> itself, and
  the panel is hidden.
\<close>

definition committed :: "'a options \<Rightarrow> 'a \<Rightarrow> 'a state \<Rightarrow> 'a state \<Rightarrow> bool" where
  "committed opts x s s' \<longleftrightarrow>
     inputValue s' = formatSelectedItem opts x \<and>
     calls s' = calls s @ [FormatSelectedItem x, OnSelect x] \<and>
     displayNone s'"

text \<open>
  Whether the key handler called \<^verbatim>\<open>event.preventDefault()\<close>. Where the handler raises, the
  call came before the failing read.
\<close>

definition defaultPrevented :: "'a options \<Rightarrow> key \<Rightarrow> 'a state \<Rightarrow> bool" where
  "defaultPrevented opts k s =
     (case handleKeyDown opts k s of Inl e \<Rightarrow> True | Inr (s', prevented) \<Rightarrow> prevented)"

text \<open>The queries the suggestion source has been called with, oldest first.\<close>

definition fetches :: "'a state \<Rightarrow> string list" where
  "fetches s = concat (map (\<lambda>c. case c of GetSuggestions q \<Rightarrow> [q] | _ \<Rightarrow> []) (calls s))"

definition isFetch :: "nat \<times> nat \<times> task \<Rightarrow> bool" where
  "isFetch e = (case snd (snd e) of FetchTask q \<Rightarrow> True | HideTask \<Rightarrow> False)"

text \<open>The fetches still waiting in the timer table: due time and query.\<close>

definition query :: "nat \<times> nat \<times> task \<Rightarrow> nat \<times> string" where
  "query e = (fst (snd e), case snd (snd e) of FetchTask q \<Rightarrow> q | HideTask \<Rightarrow> [])"

definition pendingFetches :: "'a state \<Rightarrow> (nat \<times> string) list" where
  "pendingFetches s = map query (filter isFetch (timers s))"

text \<open>
  Every fetch in the timer table is the one \<^verbatim>\<open>this.debounceTimer\<close> points at, so that
  \<^verbatim>\<open>handleInput\<close> cancels it.
\<close>

definition timersOk :: "'a state \<Rightarrow> bool" where
  "timersOk s \<longleftrightarrow> (\<forall>e \<in> set (timers s). isFetch e \<longrightarrow> debounceTimer s = Some (fst e))"

text \<open>
  The two cases in which \<^verbatim>\<open>handleInput\<close> schedules a fetch: an empty trimmed value on
  the focused field, or a trimmed value of at least \<^verbatim>\<open>minChars\<close> characters.
\<close>

definition schedulesFetch :: "'a options \<Rightarrow> 'a state \<Rightarrow> bool" where
  "schedulesFetch opts s \<longleftrightarrow>
     (trim (inputValue s) = [] \<and> focused s) \<or>
     \<not> int (length (trim (inputValue s))) < minChars opts"

definition isInputEvent :: "event \<Rightarrow> bool" where
  "isInputEvent ev = (case ev of Edit v \<Rightarrow> True | Focus \<Rightarrow> True | _ \<Rightarrow> False)"

text \<open>A run of input and focus events, each after the pause given with it.\<close>

fun burst :: "(nat \<times> event) list \<Rightarrow> event list" where
  "burst [] = []"
| "burst ((gap, ev) # rest) = Advance gap # ev # burst rest"

text \<open>The state right after an input or focus event, \<open>F\<close> being the fetches made so far.\<close>

definition settledInput :: "'a options \<Rightarrow> string list \<Rightarrow> 'a state \<Rightarrow> bool" where
  "settledInput opts F s \<longleftrightarrow>
     timersOk s \<and> fetches s = F \<and>
     pendingFetches s =
       (if schedulesFetch opts s
        then [(now s + timerDelay (debounceTime opts), trim (inputValue s))] else [])"

text \<open>
  The invariant behind the active index: the suggestions are an array no longer than the
  maximum, the index points at one of them or is \<open>-1\<close>, a displayed panel holds exactly
  one element per suggestion, and no pending promise carries \<^verbatim>\<open>null\<close>.
\<close>

definition indexInv :: "'a options \<Rightarrow> 'a state \<Rightarrow> bool" where
  "indexInv opts s \<longleftrightarrow>
     (case suggestions s of
        Nullish \<Rightarrow> False
      | Arr xs \<Rightarrow>
          - 1 \<le> activeIndex s \<and> activeIndex s \<le> int (length xs) - 1 \<and>
          int (length xs) \<le> maxSuggestions opts \<and>
          (displayNone s \<or> map item (elements s) = xs)) \<and>
     Fulfilled Nullish \<notin> set (inflight s)"

text \<open>
  With text-only rendering every element carries the formatted item as plain text, and
  neither the markup formatter nor the sanitizer has been called.
\<close>

definition isMarkupCall :: "'a call \<Rightarrow> bool" where
  "isMarkupCall c =
     (case c of FormatSuggestionHTML x \<Rightarrow> True | SanitizeHTML h \<Rightarrow> True | _ \<Rightarrow> False)"

definition textOnly :: "'a options \<Rightarrow> 'a state \<Rightarrow> bool" where
  "textOnly opts s \<longleftrightarrow>
     list_all (\<lambda>el. body el = TextContent (formatSelectedItem opts (item el))) (elements s) \<and>
     list_all (\<lambda>c. \<not> isMarkupCall c) (calls s)"

text \<open>The fields that attachment and teardown leave alone, and those the timers leave alone.\<close>

definition core ::
  "'a state \<Rightarrow>
   'a fetched \<times> int \<times> nat option \<times> bool \<times> 'a element list \<times> css_position \<times>
   (nat \<times> nat \<times> task) list \<times> 'a settled list \<times> 'a call list \<times> string \<times> bool \<times> nat \<times>
   bool \<times> bool \<times> nat" where
  "core s =
     (suggestions s, activeIndex s, debounceTimer s, displayNone s, elements s, cssPosition s,
      timers s, inflight s, calls s, inputValue s, focused s, now s, dropdownIcon s, wrapper s,
      nextTimer s)"

definition tcore ::
  "'a state \<Rightarrow> (nat \<times> nat \<times> task) list \<times> nat option \<times> string \<times> bool \<times> nat \<times> nat" where
  "tcore s = (timers s, debounceTimer s, inputValue s, focused s, now s, nextTimer s)"

text \<open>A suggestion source that keeps to its type never yields \<^verbatim>\<open>null\<close> or \<^verbatim>\<open>undefined\<close>.\<close>

definition typedSource :: "'a options \<Rightarrow> bool" where
  "typedSource opts \<longleftrightarrow> (\<forall>q. getSuggestions opts q \<noteq> Returns (Fulfilled Nullish))"

section \<open>A sample page\<close>

text \<open>
  The country list and the suggestion source of the repository's demo page: an empty query
  yields nothing, any other query the countries whose lower-cased name contains the
  lower-cased query. The source is an \<^verbatim>\<open>async\<close> function, so it always returns a promise.
  The page has the input between two siblings.
\<close>

definition countries :: "(string \<times> nat) list" where
  "countries =
     [(''United States'', 1), (''United Kingdom'', 2), (''Canada'', 3), (''Australia'', 4),
      (''Germany'', 5)]"

definition toLowerCase :: "string \<Rightarrow> string" where
  "toLowerCase =
     map (\<lambda>c. if 65 \<le> (of_char c :: nat) \<and> (of_char c :: nat) \<le> 90
              then char_of (of_char c + 32 :: nat) else c)"

fun includes_str :: "string \<Rightarrow> string \<Rightarrow> bool" where
  "includes_str [] q = (q = [])"
| "includes_str (c # cs) q = (take (length q) (c # cs) = q \<or> includes_str cs q)"

definition demo_source :: "string \<Rightarrow> (string \<times> nat) outcome" where
  "demo_source q =
     (if q = [] then Returns (Fulfilled (Arr []))
      else Returns (Fulfilled (Arr (filter (\<lambda>c. includes_str (toLowerCase (fst c)) (toLowerCase q))
                                      countries))))"

definition demo_opts :: "(string \<times> nat) options" where
  "demo_opts =
     \<lparr>getSuggestions = demo_source, formatSelectedItem = fst, formatSuggestionHTML = None,
      maxSuggestions = 5, minChars = 2, debounceTime = 300, showDropdownIcon = False,
      allowHTML = False, sanitizeHTML = (\<lambda>h. h), renderSuggestion = DefaultRenderer\<rparr>"

definition demo_page :: "(string \<times> nat) state" where
  "demo_page =
     \<lparr>suggestions = Nullish, activeIndex = 0, debounceTimer = None, wrapper = False,
      dropdownIcon = False, displayNone = False, elements = [], cssPosition = Absolute,
      styleWidth = None, styleLeft = None, styleTop = None, classAbove = False,
      classBelow = False, iconActive = False, inputValue = [], focused = False,
      paddingRight = [], now = 0, timers = [], nextTimer = 0, inflight = [],
      parent = (\<lambda>n. None)(InputElement := Some (Other 0), Other 0 := Some Body),
      kids = (\<lambda>n. [])(Body := [Other 0], Other 0 := [Other 1, InputElement, Other 2]),
      listeners = [], nextFn = 0, calls = []\<rparr>"

definition demo_layout :: layout where
  "demo_layout =
     \<lparr>rectTop = 100, rectBottom = 130, rectLeft = 20, rectWidth = 200, innerHeight = 600,
      scrollX = 0, scrollY = 40, offsetHeight = 90\<rparr>"

text \<open>The same page scrolled so that the input sits near the lower edge of the window.\<close>

definition demo_low :: layout where
  "demo_low =
     \<lparr>rectTop = 500, rectBottom = 530, rectLeft = 20, rectWidth = 200, innerHeight = 600,
      scrollX = 0, scrollY = 40, offsetHeight = 90\<rparr>"

text \<open>The sample widget once attached, and once it shows the matches for \<^verbatim>\<open>Uni\<close>.\<close>

definition demo_attached :: "build \<Rightarrow> (string \<times> nat) state" where
  "demo_attached b = the (new_Autocomplete b demo_opts demo_page)"

definition demo_shown :: "build \<Rightarrow> (string \<times> nat) state" where
  "demo_shown b =
     projr (run b demo_opts [Focus, Edit ''Uni'', Advance 300, Settle 0 demo_layout]
              (demo_attached b))"

text \<open>The shown sample widget after one press of the down arrow.\<close>

definition demo_active :: "build \<Rightarrow> (string \<times> nat) state" where
  "demo_active b =
     projr (run b demo_opts
              [Focus, Edit ''Uni'', Advance 300, Settle 0 demo_layout, KeyDown ArrowDown]
              (demo_attached b))"

text \<open>A source that returns every country whatever the query, with at most two shown.\<close>

definition two_opts :: "(string \<times> nat) options" where
  "two_opts =
     demo_opts\<lparr>getSuggestions := (\<lambda>q. Returns (Fulfilled (Arr countries))),
               maxSuggestions := 2\<rparr>"

text \<open>
  The shown sample widget after the user cleared the field, and after the user cut the
  text down to one letter.
\<close>

definition demo_cleared :: "build \<Rightarrow> (string \<times> nat) state" where
  "demo_cleared b = projr (step b demo_opts (Edit []) (demo_shown b))"

definition demo_short :: "build \<Rightarrow> (string \<times> nat) state" where
  "demo_short b = projr (step b demo_opts (Edit ''U'') (demo_shown b))"

text \<open>
  Two bursts on the freshly attached widget, the events 100 ms apart: typing \<^verbatim>\<open>Uni\<close> letter
  by letter, and typing \<^verbatim>\<open>Un\<close> then deleting the last letter.
\<close>

definition demo_typing :: "event list" where
  "demo_typing = Focus # burst [(100, Edit ''U''), (100, Edit ''Un''), (100, Edit ''Uni'')]"

definition demo_backspace :: "event list" where
  "demo_backspace = Focus # burst [(100, Edit ''Un''), (100, Edit ''U'')]"

text \<open>
  A source that answers \<^verbatim>\<open>Uni\<close> like the sample source and hands back \<^verbatim>\<open>undefined\<close> for every
  other query, and a session in which the panel is on display when \<^verbatim>\<open>undefined\<close> arrives.
\<close>

definition flaky_opts :: "(string \<times> nat) options" where
  "flaky_opts =
     demo_opts\<lparr>getSuggestions :=
       (\<lambda>q. if q = ''Uni'' then demo_source q else Returns (Fulfilled Nullish))\<rparr>"

definition flaky_session :: "event list" where
  "flaky_session =
     [Focus, Edit ''Uni'', Advance 300, Settle 0 demo_layout,
      Edit ''Unix'', Advance 300, Settle 0 demo_layout]"

definition flaky_attached :: "build \<Rightarrow> (string \<times> nat) state" where
  "flaky_attached b = the (new_Autocomplete b flaky_opts demo_page)"

text \<open>
  Every function object in the listener table was made before now, so the next \<open>bind\<close>
  yields one that is not in the table.
\<close>

definition freshFn :: "'a state \<Rightarrow> bool" where
  "freshFn s \<longleftrightarrow> list_all (\<lambda>l. ident l < nextFn s) (listeners s)"

text \<open>The sample options with the dropdown icon switched on, and that widget attached.\<close>

definition icon_opts :: "(string \<times> nat) options" where
  "icon_opts = demo_opts\<lparr>showDropdownIcon := True\<rparr>"

definition icon_attached :: "build \<Rightarrow> (string \<times> nat) state" where
  "icon_attached b = the (new_Autocomplete b icon_opts demo_page)"

text \<open>What identifies a listener to a reader: target, event type and the method it runs.\<close>

definition registered :: "'a state \<Rightarrow> (node \<times> string \<times> handler) list" where
  "registered s = map (\<lambda>l. (target l, etype l, handler l)) (listeners s)"

text \<open>The sample widget after the query \<^verbatim>\<open>can\<close> has been answered.\<close>

definition demo_canada :: "event list" where
  "demo_canada = [Focus, Edit ''can'', Advance 300, Settle 0 demo_layout]"

text \<open>A source that throws on every call.\<close>

definition broken_opts :: "(string \<times> nat) options" where
  "broken_opts = demo_opts\<lparr>getSuggestions := (\<lambda>q. Throws)\<rparr>"

section \<open>Auxiliary facts\<close>

subsection \<open>What attachment leaves alone\<close>

lemma core_addBound [simp]: "core (addBound n ty h s) = core s"
  by (simp add: core_def addBound_def bind_def addEventListener_def)

lemma core_removeBound [simp]: "core (removeBound n ty s) = core s"
  by (simp add: core_def removeBound_def bind_def removeEventListener_def)

lemma core_dom [simp]:
  "core (appendChild n c s) = core s"
  "core (insertBefore n c r s) = core s"
  "core (removeChild n c s) = core s"
  by (simp_all add: core_def appendChild_def insertBefore_def detach_def removeChild_def Let_def
      split: option.splits)

lemmas fields_dom [simp] = core_dom [unfolded core_def prod.inject]

lemma core_setupDropdownIcon:
  "core (setupDropdownIcon s) = core (s\<lparr>wrapper := True, dropdownIcon := True\<rparr>)"
  by (simp add: setupDropdownIcon_def Let_def core_def split: option.splits)

lemma core_addScrollListeners:
  assumes "addScrollListeners p s = Some s'"
  shows "core s' = core s"
proof (rule addScrollListeners.raw_induct [where P = "\<lambda>p s s'. core s' = core s", OF _ assms])
  fix f and p :: "node option" and s s' :: "'a state"
  assume IH: "\<And>p s s'. f p s = Some s' \<Longrightarrow> core s' = core s"
    and body: "(case p of None \<Rightarrow> Some s
                | Some n \<Rightarrow> f (parent s n) (addBound n ''scroll'' HandlePositionUpdate s)) = Some s'"
  show "core s' = core s"
  proof (cases p)
    case None
    with body show ?thesis by simp
  next
    case (Some n)
    with body have "f (parent s n) (addBound n ''scroll'' HandlePositionUpdate s) = Some s'"
      by simp
    from IH [OF this] show ?thesis by simp
  qed
qed

lemma core_removeScrollListeners:
  assumes "removeScrollListeners p s = Some s'"
  shows "core s' = core s"
proof (rule removeScrollListeners.raw_induct [where P = "\<lambda>p s s'. core s' = core s", OF _ assms])
  fix f and p :: "node option" and s s' :: "'a state"
  assume IH: "\<And>p s s'. f p s = Some s' \<Longrightarrow> core s' = core s"
    and body: "(case p of None \<Rightarrow> Some s
                | Some n \<Rightarrow> f (parent s n) (removeBound n ''scroll'' s)) = Some s'"
  show "core s' = core s"
  proof (cases p)
    case None
    with body show ?thesis by simp
  next
    case (Some n)
    with body have "f (parent s n) (removeBound n ''scroll'' s) = Some s'"
      by simp
    from IH [OF this] show ?thesis by simp
  qed
qed

lemma core_setupEventListeners:
  "setupEventListeners b s = Some s' \<Longrightarrow> core s' = core s"
  by (cases b)
     (auto simp: setupEventListeners_def Let_def split: option.splits
        dest!: core_addScrollListeners)

lemma new_Autocomplete_core:
  assumes "new_Autocomplete b opts pg = Some s0"
  shows "core s0 = (Arr [], - 1, None, True, [], panelPosition b, [], [], [],
           inputValue pg, focused pg, now pg, showDropdownIcon opts, showDropdownIcon opts, nextTimer pg)"
proof -
  let ?s0 = "pg\<lparr>suggestions := Arr [], activeIndex := - 1, debounceTimer := None,
                 wrapper := False, dropdownIcon := False, displayNone := True,
                 elements := [],
                 cssPosition := panelPosition b,
                 styleWidth := None, styleLeft := None, styleTop := None,
                 classAbove := False, classBelow := False, iconActive := False,
                 timers := [], inflight := [], calls := []\<rparr>"
  let ?s1 = "appendChild Body Container ?s0"
  let ?s2 = "if showDropdownIcon opts then setupDropdownIcon ?s1 else ?s1"
  have "setupEventListeners b ?s2 = Some s0"
    using assms by (simp add: new_Autocomplete_def Let_def)
  then have "core s0 = core ?s2" by (rule core_setupEventListeners)
  also have "\<dots> = (Arr [], - 1, None, True, [], panelPosition b, [], [], [],
           inputValue pg, focused pg, now pg, showDropdownIcon opts, showDropdownIcon opts, nextTimer pg)"
    by (simp add: core_setupDropdownIcon) (simp add: core_def)
  finally show ?thesis .
qed

lemmas new_Autocomplete_init = new_Autocomplete_core [unfolded core_def prod.inject]




subsection \<open>The index invariant\<close>

lemma indexInv_hide: "indexInv opts s \<Longrightarrow> indexInv opts (hide s)"
  by (auto simp: indexInv_def hide_def split: fetched.splits)

lemma indexInv_catchError: "indexInv opts s \<Longrightarrow> indexInv opts (catchError s)"
  by (auto simp: indexInv_def catchError_def hide_def split: fetched.splits)

lemma indexInv_handleInput: "indexInv opts s \<Longrightarrow> indexInv opts (handleInput opts s)"
  by (auto simp: indexInv_def handleInput_def hide_def setTimeout_def clearTimeout_def Let_def
      split: fetched.splits option.splits)

lemma item_highlight [simp]: "map item (elements (highlightActive s)) = map item (elements s)"
proof -
  have "map (item \<circ> (\<lambda>(index, el). el\<lparr>active := (int index = a)\<rparr>)) (enumerate n es) = map item es"
    for a n and es :: "'a element list"
    by (induction es arbitrary: n) simp_all
  then show ?thesis by (simp add: highlightActive_def)
qed

lemma indexInv_highlightActive: "indexInv opts s \<Longrightarrow> indexInv opts (highlightActive s)"
  unfolding indexInv_def using item_highlight [of s]
  by (auto simp: highlightActive_def split: fetched.splits)

lemma indexInv_selectSuggestion: "indexInv opts s \<Longrightarrow> indexInv opts (selectSuggestion opts x s)"
  by (auto simp: indexInv_def selectSuggestion_def hide_def split: fetched.splits)

lemma indexInv_handleKeyDown:
  "handleKeyDown opts k s = Inr (s', p) \<Longrightarrow> indexInv opts s \<Longrightarrow> indexInv opts s'"
  apply (cases k; cases "displayNone s"; cases "suggestions s")
  apply (auto simp: handleKeyDown_def indexInv_hide indexInv_selectSuggestion 
      intro!: indexInv_highlightActive split: if_splits)
     apply (auto simp: indexInv_def)
  done

lemma indexInv_elementMouseEnter:
  "indexInv opts s \<Longrightarrow> \<not> displayNone s \<Longrightarrow> i < length (elements s) \<Longrightarrow>
   indexInv opts (elementMouseEnter i s)"
  unfolding elementMouseEnter_def
  apply (rule indexInv_highlightActive)
  apply (auto simp: indexInv_def split: fetched.splits)
  done

lemma indexInv_runTask:
  "typedSource opts \<Longrightarrow> indexInv opts s \<Longrightarrow> indexInv opts (runTask opts k s)"
  apply (cases k)
   apply (auto simp: runTask_def fetchStart_def Let_def indexInv_hide typedSource_def
      intro!: indexInv_catchError split: outcome.splits)
   apply (auto simp: indexInv_def split: fetched.splits)
  done

lemma indexInv_foldl_runTask:
  "typedSource opts \<Longrightarrow> indexInv opts s \<Longrightarrow>
   indexInv opts (foldl (\<lambda>s' (i, due, k). runTask opts k s') s ts)"
  by (induction ts arbitrary: s) (auto simp: indexInv_runTask)

lemma indexInv_advance:
  "typedSource opts \<Longrightarrow> indexInv opts s \<Longrightarrow> indexInv opts (advance opts d s)"
  unfolding advance_def Let_def
  apply (rule indexInv_foldl_runTask)
   apply (auto simp: indexInv_def split: fetched.splits)
  done

lemma item_renderElement [simp]: "item (fst (renderElement opts x)) = x"
  by (simp add: renderElement_def Let_def split: renderer.splits option.splits)

lemma length_slice: "0 \<le> m \<Longrightarrow> slice xs m = take (nat m) xs"
  by (simp add: slice_def)

lemma indexInv_land:
  assumes "indexInv opts s" "0 \<le> maxSuggestions opts" "p \<noteq> Fulfilled Nullish"
  shows "indexInv opts (land b opts lay p s)"
proof (cases p)
  case Rejected
  then show ?thesis using assms by (simp add: land_def indexInv_catchError)
next
  case (Fulfilled r)
  with assms obtain xs where r: "r = Arr xs" by (cases r) auto
  show ?thesis using assms(1,2)
    by (auto simp: Fulfilled r land_def fetchBody_def Let_def render_def show_panel_def
        updateContainerPosition_def hide_def indexInv_def length_slice comp_def
        split: fetched.splits)
qed

lemma indexInv_updateContainerPosition:
  "indexInv opts s \<Longrightarrow> indexInv opts (updateContainerPosition b lay s)"
  by (cases "suggestions s") (simp_all add: indexInv_def updateContainerPosition_def Let_def)

lemma indexInv_step:
  assumes "step b opts ev s = Inr s'" "indexInv opts s" "typedSource opts" "0 \<le> maxSuggestions opts"
  shows "indexInv opts s'"
proof (cases ev)
  case (Settle n lay)
  show ?thesis
  proof (cases "n < length (inflight s)")
    case True
    let ?s1 = "s\<lparr>inflight := take n (inflight s) @ drop (Suc n) (inflight s)\<rparr>"
    have "inflight s ! n \<noteq> Fulfilled Nullish"
      using assms(2) True by (auto simp: indexInv_def dest: nth_mem)
    moreover have "indexInv opts ?s1"
      using assms(2) by (auto simp: indexInv_def split: fetched.splits dest: in_set_takeD in_set_dropD)
    ultimately show ?thesis using assms(1,4) True Settle
      by (auto simp: step_def intro: indexInv_land)
  next
    case False
    then show ?thesis using assms Settle by (auto simp: step_def)
  qed
next
  case (Reposition lay)
  then show ?thesis using assms
    by (auto simp: step_def handlePositionUpdate_def indexInv_updateContainerPosition)
next
  case Blur
  then show ?thesis using assms
    by (auto simp: step_def blurHandler_def setTimeout_def indexInv_def split: fetched.splits)
next
  case (Edit v)
  have "indexInv opts (s\<lparr>inputValue := v\<rparr>)" using assms(2) by (cases "suggestions s") (simp_all add: indexInv_def)
  then show ?thesis using assms(1) Edit by (auto simp: step_def intro: indexInv_handleInput)
next
  case Focus
  have "indexInv opts (s\<lparr>focused := True\<rparr>)" using assms(2) by (cases "suggestions s") (simp_all add: indexInv_def)
  then show ?thesis using assms(1) Focus by (auto simp: step_def intro: indexInv_handleInput)
next
  case (KeyDown k)
  then show ?thesis using assms
    by (auto simp: step_def split: sum.splits dest: indexInv_handleKeyDown)
next
  case (MouseEnter i)
  then show ?thesis using assms
    by (auto simp: step_def indexInv_elementMouseEnter)
next
  case (Click i)
  then show ?thesis using assms
    by (auto simp: step_def elementClick_def indexInv_selectSuggestion)
next
  case IconClick
  have "indexInv opts (s\<lparr>focused := True\<rparr>)" using assms(2) by (cases "suggestions s") (simp_all add: indexInv_def)
  then have "indexInv opts (focusInput opts s)" using assms(2)
    by (auto simp: focusInput_def intro: indexInv_handleInput)
  then show ?thesis using assms IconClick
    by (auto simp: step_def iconClick_def Let_def indexInv_hide indexInv_handleInput)
next
  case (Advance d)
  then show ?thesis using assms by (auto simp: step_def indexInv_advance)
qed

lemma indexInv_run:
  "run b opts evs s = Inr s' \<Longrightarrow> indexInv opts s \<Longrightarrow> typedSource opts \<Longrightarrow>
   0 \<le> maxSuggestions opts \<Longrightarrow> indexInv opts s'"
  by (induction evs arbitrary: s) (auto split: sum.splits dest: indexInv_step)



subsection \<open>Timers and fetches\<close>

text \<open>
  An ordinary delay is applied as it is; \<^verbatim>\<open>2^31\<close> milliseconds wrap to a negative number
  and the callback is due at once.
\<close>

lemma timerDelay_id: "0 \<le> d \<Longrightarrow> d < 2147483648 \<Longrightarrow> timerDelay d = nat d"
  by (simp add: timerDelay_def toInt32_def)

lemma timerDelay_wraps: "timerDelay 2147483648 = 0"
  by (simp add: timerDelay_def toInt32_def)

lemma trim_no_break_space: "trim [CHR 0xA0] = []"
  by (simp add: trim_def isWhiteSpace_def)

lemma tcore_hide [simp]: "tcore (hide s) = tcore s"
  by (simp add: tcore_def hide_def)

lemma fetches_hide [simp]: "fetches (hide s) = fetches s"
  by (simp add: fetches_def hide_def)

lemma tcore_runTask [simp]: "tcore (runTask opts k s) = tcore s"
  by (simp add: tcore_def runTask_def fetchStart_def catchError_def hide_def Let_def
      split: task.splits outcome.splits)

lemma fetches_runTask:
  "fetches (runTask opts k s) = fetches s @ (case k of FetchTask q \<Rightarrow> [q] | HideTask \<Rightarrow> [])"
  by (simp add: fetches_def runTask_def fetchStart_def catchError_def hide_def Let_def
      split: task.splits outcome.splits)

lemma tcore_foldl_runTask:
  "tcore (foldl (\<lambda>s' (i, due, k). runTask opts k s') s ts) = tcore s"
  by (induction ts arbitrary: s) auto

lemma fetches_foldl_runTask:
  "fetches (foldl (\<lambda>s' (i, due, k). runTask opts k s') s ts) =
   fetches s @ map (snd \<circ> query) (filter isFetch ts)"
proof (induction ts arbitrary: s)
  case Nil
  show ?case by simp
next
  case (Cons e ts)
  obtain i due k where e: "e = (i, due, k)" by (cases e)
  show ?case
    by (cases k) (simp_all add: e Cons fetches_runTask isFetch_def query_def)
qed

lemma filter_isFetch_sort:
  "length (filter isFetch ts) \<le> 1 \<Longrightarrow>
   filter isFetch (sort_key f ts) = filter isFetch ts"
proof -
  assume a: "length (filter isFetch ts) \<le> 1"
  have "filter isFetch (sort_key f ts) = sort_key f (filter isFetch ts)"
    by (rule filter_sort)
  also have "\<dots> = filter isFetch ts"
    using a by (cases "filter isFetch ts") (auto simp: Suc_le_eq)
  finally show ?thesis .
qed

lemma query_filter_due:
  "map (snd \<circ> query) (filter isFetch (filter (\<lambda>(i, due, k). due \<le> t) ts)) =
   map snd (filter (\<lambda>(due, q). due \<le> t) (map query (filter isFetch ts)))"
  by (induction ts) (auto simp: query_def)

lemma query_filter_late:
  "map query (filter isFetch (filter (\<lambda>(i, due, k). \<not> due \<le> t) ts)) =
   filter (\<lambda>(due, q). \<not> due \<le> t) (map query (filter isFetch ts))"
  by (induction ts) (auto simp: query_def)

lemma advance_tcore:
  "tcore (advance opts d s) =
   (filter (\<lambda>(i, due, k). \<not> due \<le> now s + d) (timers s), debounceTimer s, inputValue s,
    focused s, now s + d, nextTimer s)"
  by (simp add: advance_def Let_def tcore_foldl_runTask) (simp add: tcore_def)

lemma advance_fetches:
  assumes "length (pendingFetches s) \<le> 1"
  shows "fetches (advance opts d s) =
         fetches s @ map snd (filter (\<lambda>(due, q). due \<le> now s + d) (pendingFetches s))"
proof -
  let ?P = "\<lambda>(i, due, k). due \<le> now s + d"
  have len: "length (filter isFetch (filter ?P (timers s))) \<le> 1"
  proof -
    have "filter isFetch (filter ?P (timers s)) = filter ?P (filter isFetch (timers s))"
      by (simp add: conj_commute)
    moreover have "length (filter ?P (filter isFetch (timers s))) \<le> length (filter isFetch (timers s))"
      by (rule length_filter_le)
    moreover have "length (filter isFetch (timers s)) \<le> 1"
      using assms by (simp add: pendingFetches_def)
    ultimately show ?thesis by (simp only:)
  qed
  have "fetches (advance opts d s) =
        fetches (s\<lparr>now := now s + d, timers := filter (\<lambda>(i, due, k). \<not> due \<le> now s + d) (timers s)\<rparr>)
        @ map (snd \<circ> query) (filter isFetch (sort_key (\<lambda>(i, due, k). due) (filter ?P (timers s))))"
    by (simp add: advance_def Let_def fetches_foldl_runTask)
  also have "filter isFetch (sort_key (\<lambda>(i, due, k). due) (filter ?P (timers s))) =
             filter isFetch (filter ?P (timers s))"
    using len by (rule filter_isFetch_sort)
  also have "map (snd \<circ> query) (filter isFetch (filter ?P (timers s))) =
             map snd (filter (\<lambda>(due, q). due \<le> now s + d) (pendingFetches s))"
    unfolding pendingFetches_def by (rule query_filter_due)
  finally show ?thesis by (simp add: fetches_def)
qed

lemma advance_pending:
  "pendingFetches (advance opts d s) = filter (\<lambda>(due, q). \<not> due \<le> now s + d) (pendingFetches s)"
proof -
  have "timers (advance opts d s) = filter (\<lambda>(i, due, k). \<not> due \<le> now s + d) (timers s)"
    using advance_tcore [of opts d s] by (simp add: tcore_def)
  then show ?thesis
    by (simp only: pendingFetches_def query_filter_late)
qed

lemma advance_timersOk: "timersOk s \<Longrightarrow> timersOk (advance opts d s)"
  using advance_tcore [of opts d s] by (auto simp: timersOk_def tcore_def)

lemma clear_pending:
  assumes "timersOk s"
  shows "filter isFetch
           (timers (case debounceTimer s of None \<Rightarrow> s | Some t \<Rightarrow> clearTimeout t s)) = []"
proof (cases "debounceTimer s")
  case None
  then show ?thesis using assms by (auto simp: timersOk_def filter_empty_conv)
next
  case (Some t)
  then show ?thesis using assms
    by (auto simp: timersOk_def filter_empty_conv clearTimeout_def)
qed

lemma handleInput_pending:
  assumes "timersOk s"
  shows "pendingFetches (handleInput opts s) =
           (if schedulesFetch opts s
            then [(now s + timerDelay (debounceTime opts), trim (inputValue s))] else [])"
    and "timersOk (handleInput opts s)"
    and "fetches (handleInput opts s) = fetches s"
    and "inputValue (handleInput opts s) = inputValue s"
    and "focused (handleInput opts s) = focused s"
    and "now (handleInput opts s) = now s"
proof -
  let ?s1 = "case debounceTimer s of None \<Rightarrow> s | Some t \<Rightarrow> clearTimeout t s"
  have c: "filter isFetch (timers ?s1) = []" using assms by (rule clear_pending)
  have n: "now ?s1 = now s" "fetches ?s1 = fetches s" "inputValue ?s1 = inputValue s"
    "focused ?s1 = focused s"
    by (simp_all add: clearTimeout_def fetches_def split: option.splits)
  have ok1: "\<forall>e \<in> set (timers ?s1). \<not> isFetch e"
    using c by (simp add: filter_empty_conv)
  show "pendingFetches (handleInput opts s) =
           (if schedulesFetch opts s
            then [(now s + timerDelay (debounceTime opts), trim (inputValue s))] else [])"
    using c n
    by (auto simp: handleInput_def Let_def pendingFetches_def schedulesFetch_def setTimeout_def hide_def
        isFetch_def query_def)
  show "timersOk (handleInput opts s)"
    using ok1
    by (auto simp: handleInput_def Let_def timersOk_def setTimeout_def hide_def isFetch_def)
  show "fetches (handleInput opts s) = fetches s"
    using n by (auto simp: handleInput_def Let_def setTimeout_def hide_def fetches_def)
  show "inputValue (handleInput opts s) = inputValue s"
    using n by (auto simp: handleInput_def Let_def setTimeout_def hide_def)
  show "focused (handleInput opts s) = focused s"
    using n by (auto simp: handleInput_def Let_def setTimeout_def hide_def)
  show "now (handleInput opts s) = now s"
    using n by (auto simp: handleInput_def Let_def setTimeout_def hide_def)
qed

lemma input_event_settles:
  assumes "timersOk s" "isInputEvent ev"
  shows "\<exists>s'. step b opts ev s = Inr s' \<and> settledInput opts (fetches s) s'"
proof (cases ev)
  case (Edit v)
  let ?s = "s\<lparr>inputValue := v\<rparr>"
  have ok: "timersOk ?s" using assms(1) by (simp add: timersOk_def)
  have f: "fetches ?s = fetches s" by (simp add: fetches_def)
  show ?thesis
    using handleInput_pending [OF ok, of opts] f
    by (simp add: Edit step_def settledInput_def schedulesFetch_def)
next
  case Focus
  let ?s = "s\<lparr>focused := True\<rparr>"
  have ok: "timersOk ?s" using assms(1) by (simp add: timersOk_def)
  have f: "fetches ?s = fetches s" by (simp add: fetches_def)
  show ?thesis
    using handleInput_pending [OF ok, of opts] f
    by (simp add: Focus step_def settledInput_def schedulesFetch_def)
qed (use assms(2) in \<open>simp_all add: isInputEvent_def\<close>)

lemma pause_keeps_pending:
  assumes "settledInput opts F s" "g < timerDelay (debounceTime opts)"
  shows "timersOk (advance opts g s) \<and> fetches (advance opts g s) = F"
proof -
  have len: "length (pendingFetches s) \<le> 1" using assms(1) by (simp add: settledInput_def)
  have "filter (\<lambda>(due, q). due \<le> now s + g) (pendingFetches s) = []"
    using assms by (auto simp: settledInput_def)
  then have "fetches (advance opts g s) = fetches s"
    using advance_fetches [OF len, of opts g] by simp
  then show ?thesis using assms(1) by (simp add: settledInput_def advance_timersOk)
qed

lemma burst_settles:
  assumes "settledInput opts F s"
    and "\<forall>(g, ev) \<in> set rest. g < timerDelay (debounceTime opts) \<and> isInputEvent ev"
  shows "\<exists>s'. run b opts (burst rest) s = Inr s' \<and> settledInput opts F s'"
  using assms
proof (induction rest arbitrary: s)
  case Nil
  then show ?case by simp
next
  case (Cons p rest)
  obtain g ev where p: "p = (g, ev)" by (cases p)
  from Cons.prems p have g: "g < timerDelay (debounceTime opts)" and ev: "isInputEvent ev" by auto
  from pause_keeps_pending [OF Cons.prems(1) g]
  have ok: "timersOk (advance opts g s)" and f: "fetches (advance opts g s) = F" by auto
  from input_event_settles [OF ok ev, of b opts] f
  obtain s1 where s1: "step b opts ev (advance opts g s) = Inr s1" "settledInput opts F s1"
    by auto
  from Cons.IH [OF s1(2)] Cons.prems(2)
  obtain s' where "run b opts (burst rest) s1 = Inr s'" "settledInput opts F s'" by auto
  then show ?case using s1(1) by (simp add: p step_def)
qed

lemma settled_then_wait:
  assumes "settledInput opts F s" "timerDelay (debounceTime opts) \<le> d"
  shows "fetches (advance opts d s) =
         F @ (if schedulesFetch opts s then [trim (inputValue s)] else [])"
proof -
  have len: "length (pendingFetches s) \<le> 1" using assms(1) by (simp add: settledInput_def)
  show ?thesis
    using advance_fetches [OF len, of opts d] assms
    by (auto simp: settledInput_def)
qed

subsection \<open>The timer table stays well formed\<close>

lemma timersOk_cong:
  "timers s' = timers s \<Longrightarrow> debounceTimer s' = debounceTimer s \<Longrightarrow> timersOk s' = timersOk s"
  by (simp add: timersOk_def)

lemma timers_hide [simp]: "timers (hide s) = timers s" "debounceTimer (hide s) = debounceTimer s"
  by (simp_all add: hide_def)

lemma timers_catchError [simp]:
  "timers (catchError s) = timers s" "debounceTimer (catchError s) = debounceTimer s"
  by (simp_all add: catchError_def)

lemma timers_selectSuggestion [simp]:
  "timers (selectSuggestion opts x s) = timers s"
  "debounceTimer (selectSuggestion opts x s) = debounceTimer s"
  by (simp_all add: selectSuggestion_def)

lemma timers_highlightActive [simp]:
  "timers (highlightActive s) = timers s" "debounceTimer (highlightActive s) = debounceTimer s"
  by (simp_all add: highlightActive_def)

lemma timers_updateContainerPosition [simp]:
  "timers (updateContainerPosition b lay s) = timers s"
  "debounceTimer (updateContainerPosition b lay s) = debounceTimer s"
  by (simp_all add: updateContainerPosition_def Let_def)

lemma timers_show_panel [simp]:
  "timers (show_panel b lay s) = timers s" "debounceTimer (show_panel b lay s) = debounceTimer s"
  by (simp_all add: show_panel_def Let_def)

lemma timers_render:
  "render opts s = Inr s' \<Longrightarrow> timers s' = timers s \<and> debounceTimer s' = debounceTimer s"
  "render opts s = Inl (e, s') \<Longrightarrow> timers s' = timers s \<and> debounceTimer s' = debounceTimer s"
  by (auto simp: render_def Let_def split: fetched.splits)

lemma timers_fetchBody:
  "fetchBody b opts lay r s = Inr s' \<Longrightarrow> timers s' = timers s \<and> debounceTimer s' = debounceTimer s"
  "fetchBody b opts lay r s = Inl (e, s') \<Longrightarrow> timers s' = timers s \<and> debounceTimer s' = debounceTimer s"
  by (auto simp: fetchBody_def Let_def split: fetched.splits build.splits if_splits sum.splits
      dest: timers_render)

lemma timers_land [simp]:
  "timers (land b opts lay p s) = timers s" "debounceTimer (land b opts lay p s) = debounceTimer s"
  by (auto simp: land_def split: settled.splits sum.splits dest: timers_fetchBody)

lemma timers_handleKeyDown:
  "handleKeyDown opts k s = Inr (s', p) \<Longrightarrow> timers s' = timers s \<and> debounceTimer s' = debounceTimer s"
  by (auto simp: handleKeyDown_def split: if_splits key.splits fetched.splits)

lemma timersOk_step:
  assumes "step b opts ev s = Inr s'" "timersOk s"
  shows "timersOk s'"
proof (cases ev)
  case (Edit v)
  have "timersOk (s\<lparr>inputValue := v\<rparr>)" using assms(2) by (simp add: timersOk_def)
  then show ?thesis using assms(1) Edit by (auto simp: step_def handleInput_pending(2))
next
  case Focus
  have "timersOk (s\<lparr>focused := True\<rparr>)" using assms(2) by (simp add: timersOk_def)
  then show ?thesis using assms(1) Focus by (auto simp: step_def handleInput_pending(2))
next
  case Blur
  then show ?thesis using assms
    by (auto simp: step_def blurHandler_def setTimeout_def timersOk_def isFetch_def)
next
  case (KeyDown k)
  then show ?thesis using assms
    by (auto simp: step_def split: sum.splits dest!: timers_handleKeyDown
        simp: timersOk_def)
next
  case (MouseEnter i)
  then show ?thesis using assms
    by (auto simp: step_def elementMouseEnter_def timersOk_def)
next
  case (Click i)
  then show ?thesis using assms
    by (auto simp: step_def elementClick_def timersOk_def)
next
  case IconClick
  have "timersOk (s\<lparr>focused := True\<rparr>)" using assms(2) by (simp add: timersOk_def)
  then have f: "timersOk (focusInput opts s)" using assms(2)
    by (simp add: focusInput_def handleInput_pending(2))
  have "timersOk (iconClick opts s)"
  proof (cases "displayNone (focusInput opts s)")
    case True
    then show ?thesis using f by (simp add: iconClick_def Let_def handleInput_pending(2))
  next
    case False
    then show ?thesis using f by (simp add: iconClick_def Let_def timersOk_def)
  qed
  then show ?thesis using assms IconClick by (auto simp: step_def)
next
  case (Advance d)
  then show ?thesis using assms by (auto simp: step_def advance_timersOk)
next
  case (Settle n lay)
  then show ?thesis using assms
    by (cases "n < length (inflight s)") (auto simp: step_def timersOk_def)
next
  case (Reposition lay)
  then show ?thesis using assms
    by (cases "displayNone s") (auto simp: step_def handlePositionUpdate_def timersOk_def)
qed

lemma timersOk_run:
  "run b opts evs s = Inr s' \<Longrightarrow> timersOk s \<Longrightarrow> timersOk s'"
  by (induction evs arbitrary: s) (auto split: sum.splits dest: timersOk_step)

lemma timersOk_new: "new_Autocomplete b opts pg = Some s0 \<Longrightarrow> timersOk s0"
  by (drule new_Autocomplete_init) (simp add: timersOk_def)

lemma indexInv_new:
  "new_Autocomplete b opts pg = Some s0 \<Longrightarrow> 0 \<le> maxSuggestions opts \<Longrightarrow> indexInv opts s0"
  by (drule new_Autocomplete_init) (simp add: indexInv_def)

lemma cssPosition_new: "new_Autocomplete b opts pg = Some s0 \<Longrightarrow> cssPosition s0 = panelPosition b"
  by (drule new_Autocomplete_init) simp

subsection \<open>Text-only rendering\<close>

lemma textOnly_cong:
  "elements s' = elements s \<Longrightarrow> calls s' = calls s \<Longrightarrow> textOnly opts s' = textOnly opts s"
  by (simp add: textOnly_def)

lemma textOnly_hide [simp]: "textOnly opts (hide s) = textOnly opts s"
  by (simp add: textOnly_def hide_def)

lemma textOnly_catchError [simp]: "textOnly opts (catchError s) = textOnly opts s"
  by (simp add: textOnly_def catchError_def hide_def isMarkupCall_def)

lemma textOnly_handleInput [simp]: "textOnly opts (handleInput opts' s) = textOnly opts s"
  by (simp add: textOnly_def handleInput_def Let_def setTimeout_def clearTimeout_def hide_def
      split: option.splits)

lemma textOnly_highlightActive: "textOnly opts s \<Longrightarrow> textOnly opts (highlightActive s)"
proof -
  have "list_all (\<lambda>el. body el = TextContent (formatSelectedItem opts (item el))) es \<Longrightarrow>
        list_all (\<lambda>el. body el = TextContent (formatSelectedItem opts (item el)))
          (map (\<lambda>(index, el). el\<lparr>active := (int index = a)\<rparr>) (enumerate n es))"
    for a n and es :: "'a element list"
    by (induction es arbitrary: n) simp_all
  then show "textOnly opts s \<Longrightarrow> textOnly opts (highlightActive s)"
    by (simp add: textOnly_def highlightActive_def)
qed

lemma textOnly_selectSuggestion:
  "textOnly opts s \<Longrightarrow> textOnly opts (selectSuggestion opts x s)"
  by (simp add: textOnly_def selectSuggestion_def hide_def isMarkupCall_def)

lemma textOnly_handleKeyDown:
  "handleKeyDown opts k s = Inr (s', p) \<Longrightarrow> textOnly opts s \<Longrightarrow> textOnly opts s'"
  by (auto simp: handleKeyDown_def textOnly_selectSuggestion
      intro!: textOnly_highlightActive
      split: if_splits key.splits fetched.splits)
     (simp_all add: textOnly_def)

lemma textOnly_runTask: "textOnly opts s \<Longrightarrow> textOnly opts (runTask opts k s)"
  by (auto simp: runTask_def fetchStart_def Let_def split: task.splits outcome.splits)
     (simp_all add: textOnly_def isMarkupCall_def)

lemma textOnly_foldl_runTask:
  "textOnly opts s \<Longrightarrow> textOnly opts (foldl (\<lambda>s' (i, due, k). runTask opts k s') s ts)"
  by (induction ts arbitrary: s) (auto simp: textOnly_runTask)

lemma textOnly_advance: "textOnly opts s \<Longrightarrow> textOnly opts (advance opts d s)"
  unfolding advance_def Let_def
  by (rule textOnly_foldl_runTask) (simp add: textOnly_def)

lemma textOnly_updateContainerPosition [simp]:
  "textOnly opts (updateContainerPosition b lay s) = textOnly opts s"
  by (simp add: textOnly_def updateContainerPosition_def Let_def)

lemma textOnly_show_panel [simp]: "textOnly opts (show_panel b lay s) = textOnly opts s"
  by (simp add: textOnly_def show_panel_def updateContainerPosition_def Let_def)

lemma renderElement_text:
  assumes "renderSuggestion opts = DefaultRenderer" "\<not> allowHTML opts"
  shows "renderElement opts x =
         (\<lparr>item = x, body = TextContent (formatSelectedItem opts x), active = False\<rparr>,
          [FormatSelectedItem x])"
  using assms by (simp add: renderElement_def)

lemma textOnly_render:
  assumes "renderSuggestion opts = DefaultRenderer" "\<not> allowHTML opts" "textOnly opts s"
  shows "render opts s = Inr s' \<Longrightarrow> textOnly opts s'"
    and "render opts s = Inl (e, s') \<Longrightarrow> textOnly opts s'"
  using assms(3)
  by (auto simp: render_def Let_def textOnly_def renderElement_text [OF assms(1,2)]
      list_all_iff isMarkupCall_def split: fetched.splits)

lemma textOnly_land:
  assumes "renderSuggestion opts = DefaultRenderer" "\<not> allowHTML opts" "textOnly opts s"
  shows "textOnly opts (land b opts lay p s)"
proof -
  have s: "textOnly opts (s\<lparr>suggestions := r\<rparr>)" for r
    using assms(3) by (simp add: textOnly_def)
  have "textOnly opts s'" if "fetchBody b opts lay r s = Inr s'" for r s'
    using that s
    by (auto simp: fetchBody_def Let_def split: fetched.splits build.splits if_splits sum.splits
        dest!: textOnly_render(1) [OF assms(1,2), rotated])
  moreover have "textOnly opts s'" if "fetchBody b opts lay r s = Inl (e, s')" for r e s'
    using that s
    by (auto simp: fetchBody_def Let_def split: fetched.splits build.splits if_splits sum.splits
        dest!: textOnly_render(2) [OF assms(1,2), rotated])
  ultimately show ?thesis using assms(3)
    by (auto simp: land_def split: settled.splits sum.splits)
qed

lemma textOnly_step:
  assumes "renderSuggestion opts = DefaultRenderer" "\<not> allowHTML opts"
    and "step b opts ev s = Inr s'" "textOnly opts s"
  shows "textOnly opts s'"
proof (cases ev)
  case (Settle n lay)
  have "textOnly opts (s\<lparr>inflight := fs\<rparr>)" for fs
    using assms(4) by (simp add: textOnly_def)
  then show ?thesis using assms(3,4) Settle
    by (auto simp: step_def textOnly_land [OF assms(1,2)])
next
  case (KeyDown k)
  then show ?thesis using assms(3,4)
    by (auto simp: step_def split: sum.splits dest: textOnly_handleKeyDown)
next
  case (Edit v)
  have "textOnly opts (s\<lparr>inputValue := v\<rparr>)" using assms(4) by (simp add: textOnly_def)
  then show ?thesis using assms(3) Edit by (auto simp: step_def)
next
  case Focus
  have "textOnly opts (s\<lparr>focused := True\<rparr>)" using assms(4) by (simp add: textOnly_def)
  then show ?thesis using assms(3) Focus by (auto simp: step_def)
next
  case Blur
  then show ?thesis using assms(3,4)
    by (auto simp: step_def blurHandler_def setTimeout_def textOnly_def)
next
  case (MouseEnter i)
  have "textOnly opts (s\<lparr>activeIndex := int i\<rparr>)" using assms(4) by (simp add: textOnly_def)
  then show ?thesis using assms(3,4) MouseEnter
    by (auto simp: step_def elementMouseEnter_def textOnly_highlightActive)
next
  case (Click i)
  then show ?thesis using assms(3,4)
    by (auto simp: step_def elementClick_def textOnly_selectSuggestion)
next
  case IconClick
  have "textOnly opts (s\<lparr>focused := True\<rparr>)" using assms(4) by (simp add: textOnly_def)
  then show ?thesis using assms(3,4) IconClick
    by (auto simp: step_def iconClick_def focusInput_def Let_def)
next
  case (Advance d)
  then show ?thesis using assms(3,4) by (auto simp: step_def textOnly_advance)
next
  case (Reposition lay)
  then show ?thesis using assms(3,4) by (auto simp: step_def handlePositionUpdate_def)
qed

lemma textOnly_run:
  assumes "renderSuggestion opts = DefaultRenderer" "\<not> allowHTML opts"
  shows "run b opts evs s = Inr s' \<Longrightarrow> textOnly opts s \<Longrightarrow> textOnly opts s'"
  by (induction evs arbitrary: s)
     (auto split: sum.splits dest: textOnly_step [OF assms])

lemma textOnly_new: "new_Autocomplete b opts pg = Some s0 \<Longrightarrow> textOnly opts s0"
  by (drule new_Autocomplete_init) (simp add: textOnly_def)

subsection \<open>Positioning\<close>

lemma updateContainerPosition_placed:
  "cssPosition s = panelPosition b \<Longrightarrow> placed lay (updateContainerPosition b lay s)"
  by (cases b)
     (simp_all add: placed_def updateContainerPosition_def viewportLeft_def viewportTop_def
        panelPosition_def Let_def)

lemma cssPosition_hide [simp]: "cssPosition (hide s) = cssPosition s"
  by (simp add: hide_def)

lemma cssPosition_catchError [simp]: "cssPosition (catchError s) = cssPosition s"
  by (simp add: catchError_def)

lemma cssPosition_updateContainerPosition:
  "cssPosition s = panelPosition b \<Longrightarrow>
   cssPosition (updateContainerPosition b lay s) = panelPosition b"
  by (cases b) (simp_all add: updateContainerPosition_def panelPosition_def Let_def)

lemma cssPosition_show_panel:
  "cssPosition s = panelPosition b \<Longrightarrow> cssPosition (show_panel b lay s) = panelPosition b"
  by (simp add: show_panel_def Let_def cssPosition_updateContainerPosition)

lemma cssPosition_handleInput [simp]: "cssPosition (handleInput opts s) = cssPosition s"
  by (simp add: handleInput_def setTimeout_def clearTimeout_def Let_def split: option.splits)

lemma cssPosition_selectSuggestion [simp]:
  "cssPosition (selectSuggestion opts x s) = cssPosition s"
  by (simp add: selectSuggestion_def)

lemma cssPosition_highlightActive [simp]: "cssPosition (highlightActive s) = cssPosition s"
  by (simp add: highlightActive_def)

lemma cssPosition_handleKeyDown:
  "handleKeyDown opts k s = Inr (s', p) \<Longrightarrow> cssPosition s' = cssPosition s"
  by (auto simp: handleKeyDown_def split: if_splits key.splits fetched.splits)

lemma cssPosition_runTask [simp]: "cssPosition (runTask opts k s) = cssPosition s"
  by (simp add: runTask_def fetchStart_def Let_def split: task.splits outcome.splits)

lemma cssPosition_foldl_runTask:
  "cssPosition (foldl (\<lambda>s' (i, due, k). runTask opts k s') s ts) = cssPosition s"
  by (induction ts arbitrary: s) auto

lemma cssPosition_advance [simp]: "cssPosition (advance opts d s) = cssPosition s"
  by (simp add: advance_def Let_def cssPosition_foldl_runTask)

lemma cssPosition_render:
  "render opts s = Inr s' \<Longrightarrow> cssPosition s' = cssPosition s"
  "render opts s = Inl (e, s') \<Longrightarrow> cssPosition s' = cssPosition s"
  by (auto simp: render_def Let_def split: fetched.splits)

lemma cssPosition_land:
  "cssPosition s = panelPosition b \<Longrightarrow> cssPosition (land b opts lay p s) = panelPosition b"
  by (auto simp: land_def fetchBody_def Let_def cssPosition_show_panel
      dest: cssPosition_render
      split: settled.splits fetched.splits build.splits sum.splits if_splits)

lemma cssPosition_step:
  "step b opts ev s = Inr s' \<Longrightarrow> cssPosition s = panelPosition b \<Longrightarrow>
   cssPosition s' = panelPosition b"
  by (cases ev)
     (auto simp: step_def blurHandler_def setTimeout_def elementMouseEnter_def elementClick_def
        iconClick_def focusInput_def handlePositionUpdate_def Let_def
        cssPosition_land cssPosition_updateContainerPosition
        dest: cssPosition_handleKeyDown split: sum.splits if_splits)

lemma cssPosition_run:
  "run b opts evs s = Inr s' \<Longrightarrow> cssPosition s = panelPosition b \<Longrightarrow>
   cssPosition s' = panelPosition b"
  by (induction evs arbitrary: s) (auto split: sum.splits dest: cssPosition_step)

section \<open>The claims\<close>

subsection \<open>The sample widget runs\<close>

lemma demo_attach: "new_Autocomplete b demo_opts demo_page = Some (demo_attached b)"
proof -
  have "\<not> Option.is_none (new_Autocomplete b demo_opts demo_page)"
    by (cases b; hypsubst; code_simp)
  then show ?thesis by (auto simp: demo_attached_def Option.is_none_def)
qed

lemma demo_show:
  "run b demo_opts [Focus, Edit ''Uni'', Advance 300, Settle 0 demo_layout] (demo_attached b) =
   Inr (demo_shown b)"
proof -
  have "\<not> isl (run b demo_opts [Focus, Edit ''Uni'', Advance 300, Settle 0 demo_layout]
                 (demo_attached b))"
    by (cases b; hypsubst; code_simp)
  then show ?thesis unfolding demo_shown_def by simp
qed

lemma demo_typed: "typedSource demo_opts"
  by (simp add: typedSource_def demo_opts_def demo_source_def)

lemma demo_visible: "\<not> displayNone (demo_shown b)"
  by (cases b; hypsubst; code_simp)

subsection \<open>Positioning of the panel\<close>

lemma placed_iconActive: "placed lay (s\<lparr>iconActive := v\<rparr>) = placed lay s"
  by (cases "cssPosition s") (simp_all add: placed_def viewportLeft_def viewportTop_def)

text \<open>
  Claim C8. On show and on every reposition the panel's width equals the width of the
  input's bounding rectangle and its left edge matches the input's left edge; the panel is
  placed above the input exactly when the space below the input is less than the panel's
  height and the space above is greater than the space below, and below the input
  otherwise. Stated for every state \<open>s\<close> reached from the constructor, in both builds: after
  \<^verbatim>\<open>show\<close> the panel is \<open>placed\<close>; a resize or scroll event leaves a hidden panel alone and
  leaves a displayed one \<open>placed\<close>.
\<close>

theorem panel_placement:
  assumes "new_Autocomplete b opts pg = Some s0" and "run b opts evs s0 = Inr s"
  shows "placed lay (show_panel b lay s) \<and>
         (if displayNone s then handlePositionUpdate b lay s = s
          else placed lay (handlePositionUpdate b lay s))"
proof -
  have css: "cssPosition s = panelPosition b"
    using assms by (auto dest: cssPosition_new cssPosition_run)
  then have "cssPosition (s\<lparr>displayNone := False\<rparr>) = panelPosition b" by simp
  from updateContainerPosition_placed [OF this, of lay]
  have "placed lay (show_panel b lay s)"
    by (simp add: show_panel_def Let_def placed_iconActive)
  moreover have "placed lay (updateContainerPosition b lay s)"
    using css by (rule updateContainerPosition_placed)
  ultimately show ?thesis by (simp add: handlePositionUpdate_def)
qed

text \<open>
  The sample panel in the JavaScript build: shown with plenty of room below, then
  repositioned with the input near the lower edge of the window.
\<close>

theorem panel_placement_witness:
  "placed demo_layout (show_panel JavaScript demo_layout (demo_shown JavaScript)) \<and>
   placed demo_low (handlePositionUpdate JavaScript demo_low (demo_shown JavaScript))"
  using panel_placement [OF demo_attach demo_show, where b = JavaScript and lay = demo_layout]
    panel_placement [OF demo_attach demo_show, where b = JavaScript and lay = demo_low]
    demo_visible [of JavaScript]
  by simp

subsection \<open>Truncation to the maximum\<close>

lemma demo_activate:
  "run b demo_opts [Focus, Edit ''Uni'', Advance 300, Settle 0 demo_layout, KeyDown ArrowDown]
     (demo_attached b) = Inr (demo_active b)"
proof -
  have "\<not> isl (run b demo_opts
                 [Focus, Edit ''Uni'', Advance 300, Settle 0 demo_layout, KeyDown ArrowDown]
                 (demo_attached b))"
    by (cases b; hypsubst; code_simp)
  then show ?thesis unfolding demo_active_def by simp
qed

lemma slice_take: "0 \<le> m \<Longrightarrow> slice xs m = take (nat (min (int (length xs)) m)) xs"
  by (simp add: slice_def min_def)

lemma land_array:
  assumes "0 \<le> maxSuggestions opts"
  shows "let ys = take (nat (min (int (length xs)) (maxSuggestions opts))) xs;
             s' = land b opts lay (Fulfilled (Arr xs)) s
         in suggestions s' = Arr ys \<and>
            (if ys = [] then displayNone s' else \<not> displayNone s' \<and> map item (elements s') = ys)"
  using assms
  by (simp add: land_def fetchBody_def Let_def slice_take render_def show_panel_def
      updateContainerPosition_def hide_def comp_def)

text \<open>
  Claim C3. For every query and every sequence the suggestion source returns, the
  suggestions stored and rendered are exactly the first \<open>min(length, maxSuggestions)\<close>
  items of the returned sequence, in the source's order: the count never exceeds the
  configured maximum and the order is preserved. Stated for a maximum that is not
  negative: the source is called with \<open>q\<close>, returns \<open>xs\<close>, and its promise settles.
\<close>

theorem truncation_keeps_order:
  assumes "0 \<le> maxSuggestions opts"
    and "getSuggestions opts q = Returns (Fulfilled (Arr xs))"
  shows "let ys = take (nat (min (int (length xs)) (maxSuggestions opts))) xs
         in \<exists>s'. step b opts (Settle (length (inflight s)) lay) (fetchStart opts q s) = Inr s' \<and>
              suggestions s' = Arr ys \<and>
              int (length ys) \<le> maxSuggestions opts \<and>
              (if ys = [] then displayNone s'
               else \<not> displayNone s' \<and> map item (elements s') = ys)"
proof -
  let ?s1 = "fetchStart opts q s"
  have i: "inflight ?s1 = inflight s @ [Fulfilled (Arr xs)]"
    using assms(2) by (simp add: fetchStart_def Let_def)
  have "step b opts (Settle (length (inflight s)) lay) ?s1 =
        Inr (land b opts lay (Fulfilled (Arr xs)) (?s1\<lparr>inflight := inflight s\<rparr>))"
    by (simp add: step_def i)
  moreover have "int (length (take (nat (min (int (length xs)) (maxSuggestions opts))) xs))
                 \<le> maxSuggestions opts"
    using assms(1) by simp
  ultimately show ?thesis
    using land_array [OF assms(1), of xs b lay "?s1\<lparr>inflight := inflight s\<rparr>"]
    by (simp add: Let_def)
qed

text \<open>Maximum 2, five countries returned: the first two are stored and rendered.\<close>

theorem truncation_keeps_order_witness:
  "\<exists>s'. step TypeScript two_opts (Settle (length (inflight (demo_attached TypeScript))) demo_layout)
          (fetchStart two_opts ''a'' (demo_attached TypeScript)) = Inr s' \<and>
        suggestions s' = Arr [(''United States'', 1), (''United Kingdom'', 2)] \<and>
        map item (elements s') = [(''United States'', 1), (''United Kingdom'', 2)]"
proof -
  have m: "0 \<le> maxSuggestions two_opts" by (simp add: two_opts_def)
  have g: "getSuggestions two_opts ''a'' = Returns (Fulfilled (Arr countries))"
    by (simp add: two_opts_def)
  have t: "take (nat (min (int (length countries)) (maxSuggestions two_opts))) countries =
           [(''United States'', 1), (''United Kingdom'', 2)]"
    by (simp add: two_opts_def countries_def)
  show ?thesis
    using truncation_keeps_order [OF m g, of TypeScript "demo_attached TypeScript" demo_layout]
    unfolding Let_def t by auto
qed

subsection \<open>Selection and keys\<close>

lemma selectSuggestion_committed: "committed opts x s (selectSuggestion opts x s)"
  by (simp add: committed_def selectSuggestion_def hide_def)

text \<open>
  Claim C5. Selecting a suggestion, by clicking its element or by pressing Enter while it
  is highlighted, sets the input's value to the formatter's string for that item, invokes
  \<^verbatim>\<open>onSelect\<close> exactly once with the item itself, and afterwards hides the panel.
\<close>

theorem selection_commits:
  "(i < length (elements s) \<longrightarrow>
      committed opts (item (elements s ! i)) s (elementClick opts i s)) \<and>
   (\<not> displayNone s \<and> suggestions s = Arr xs \<and> 0 \<le> activeIndex s \<and>
    activeIndex s < int (length xs) \<longrightarrow>
      (\<exists>s'. handleKeyDown opts Enter s = Inr (s', True) \<and>
            committed opts (xs ! nat (activeIndex s)) s s'))"
  by (simp add: elementClick_def handleKeyDown_def selectSuggestion_committed)

text \<open>
  On the sample panel with the first item active: a click on the second element commits
  the United Kingdom, Enter commits the United States.
\<close>

theorem selection_commits_witness:
  "committed demo_opts (''United Kingdom'', 2) (demo_active TypeScript)
     (elementClick demo_opts 1 (demo_active TypeScript)) \<and>
   (\<exists>s'. handleKeyDown demo_opts Enter (demo_active TypeScript) = Inr (s', True) \<and>
         committed demo_opts (''United States'', 1) (demo_active TypeScript) s')"
proof -
  have a: "1 < length (elements (demo_active TypeScript))" by code_simp
  have b: "item (elements (demo_active TypeScript) ! 1) = (''United Kingdom'', 2)" by code_simp
  have c: "\<not> displayNone (demo_active TypeScript)" by code_simp
  have d: "suggestions (demo_active TypeScript) =
           Arr [(''United States'', 1), (''United Kingdom'', 2)]" by code_simp
  have e: "activeIndex (demo_active TypeScript) = 0" by code_simp
  show ?thesis
    using selection_commits [of 1 "demo_active TypeScript" demo_opts
        "[(''United States'', 1), (''United Kingdom'', 2)]"] a b c d e
    by simp
qed

text \<open>
  Claim C7, as amended. The key handler does nothing while the panel is hidden. While it
  is displayed, ArrowDown moves the active index up by one, capped at the last
  suggestion, ArrowUp moves it down by one, stopping at \<open>-1\<close>, and Escape hides the panel;
  these three always suppress the default key behaviour. Enter commits the selection and
  suppresses the default only if an item is active; with no active item it changes
  nothing and leaves the default behaviour in place.
\<close>

theorem key_handling:
  assumes "suggestions s = Arr xs" and "activeIndex s < int (length xs)"
  shows "\<exists>s'. handleKeyDown opts k s = Inr (s', defaultPrevented opts k s) \<and>
          (if displayNone s then s' = s \<and> \<not> defaultPrevented opts k s
           else case k of
             ArrowDown \<Rightarrow>
               defaultPrevented opts k s \<and> \<not> displayNone s' \<and>
               activeIndex s' = min (activeIndex s + 1) (int (length xs) - 1)
           | ArrowUp \<Rightarrow>
               defaultPrevented opts k s \<and> \<not> displayNone s' \<and>
               activeIndex s' = max (activeIndex s - 1) (- 1)
           | Enter \<Rightarrow>
               if 0 \<le> activeIndex s
               then defaultPrevented opts k s \<and> committed opts (xs ! nat (activeIndex s)) s s'
               else s' = s \<and> \<not> defaultPrevented opts k s
           | Escape \<Rightarrow> defaultPrevented opts k s \<and> displayNone s' \<and> activeIndex s' = - 1
           | OtherKey \<Rightarrow> s' = s \<and> \<not> defaultPrevented opts k s)"
  using assms
  by (cases k)
     (simp_all add: defaultPrevented_def handleKeyDown_def highlightActive_def hide_def
        selectSuggestion_committed)

text \<open>A second ArrowDown on the sample panel moves the active index from 0 to 1.\<close>

theorem key_handling_witness:
  "\<exists>s'. handleKeyDown demo_opts ArrowDown (demo_active TypeScript) = Inr (s', True) \<and>
        activeIndex s' = 1"
proof -
  have c: "\<not> displayNone (demo_active TypeScript)" by code_simp
  have d: "suggestions (demo_active TypeScript) =
           Arr [(''United States'', 1), (''United Kingdom'', 2)]" by code_simp
  have e: "activeIndex (demo_active TypeScript) = 0" by code_simp
  have f: "activeIndex (demo_active TypeScript) <
           int (length [(''United States'', 1 :: nat), (''United Kingdom'', 2)])"
    by (simp add: e)
  show ?thesis
    using key_handling [OF d f, of demo_opts ArrowDown] c e by auto
qed

text \<open>
  The claim as first stated has all four keys suppress the default behaviour. On the
  sample panel, displayed and with no item active, Enter does not.
\<close>

theorem enter_without_active_item:
  "\<not> displayNone (demo_shown TypeScript) \<and>
   \<not> defaultPrevented demo_opts Enter (demo_shown TypeScript)"
  by code_simp

subsection \<open>The active index\<close>

lemma render_resets:
  "suggestions s = Arr xs \<Longrightarrow> \<exists>s'. render opts s = Inr s' \<and> activeIndex s' = - 1"
  by (simp add: render_def Let_def)

text \<open>
  Claim C1. In every state reached from the constructor the active index lies within
  \<open>[-1, suggestions.length - 1]\<close> and the stored suggestions are no longer than the
  configured maximum; \<^verbatim>\<open>hide\<close> and \<^verbatim>\<open>render\<close> reset the index to \<open>-1\<close>, ArrowDown caps it at
  \<open>suggestions.length - 1\<close>, ArrowUp stops at \<open>-1\<close>, and hovering element \<open>i\<close> of the
  displayed panel sets it to \<open>i\<close>, which is within the range. Stated for a suggestion
  source that keeps to its type and a maximum that is not negative.
\<close>

theorem active_index_in_range:
  assumes "new_Autocomplete b opts pg = Some s0" and "run b opts evs s0 = Inr s"
    and "typedSource opts" and "0 \<le> maxSuggestions opts"
  shows "\<exists>xs. suggestions s = Arr xs \<and>
           - 1 \<le> activeIndex s \<and> activeIndex s \<le> int (length xs) - 1 \<and>
           int (length xs) \<le> maxSuggestions opts \<and>
           activeIndex (hide s) = - 1 \<and>
           (\<exists>s'. render opts s = Inr s' \<and> activeIndex s' = - 1) \<and>
           (\<not> displayNone s \<longrightarrow>
              (\<exists>s'. handleKeyDown opts ArrowDown s = Inr (s', True) \<and>
                    activeIndex s' = min (activeIndex s + 1) (int (length xs) - 1)) \<and>
              (\<exists>s'. handleKeyDown opts ArrowUp s = Inr (s', True) \<and>
                    activeIndex s' = max (activeIndex s - 1) (- 1)) \<and>
              (\<forall>i < length (elements s).
                 activeIndex (elementMouseEnter i s) = int i \<and> int i \<le> int (length xs) - 1))"
proof -
  have inv: "indexInv opts s"
    using assms by (auto dest: indexInv_new indexInv_run)
  then obtain xs where xs: "suggestions s = Arr xs"
    by (cases "suggestions s") (auto simp: indexInv_def)
  have r: "- 1 \<le> activeIndex s" "activeIndex s \<le> int (length xs) - 1"
    "int (length xs) \<le> maxSuggestions opts"
    "displayNone s \<or> map item (elements s) = xs"
    using inv xs by (auto simp: indexInv_def)
  have h: "activeIndex (hide s) = - 1" by (simp add: hide_def)
  have e: "\<not> displayNone s \<Longrightarrow> length (elements s) = length xs"
    using r(4) by (auto dest: arg_cong [where f = length])
  have m: "activeIndex (elementMouseEnter i s) = int i" for i
    by (simp add: elementMouseEnter_def highlightActive_def)
  have k: "\<not> displayNone s \<Longrightarrow>
      (\<exists>s'. handleKeyDown opts ArrowDown s = Inr (s', True) \<and>
            activeIndex s' = min (activeIndex s + 1) (int (length xs) - 1)) \<and>
      (\<exists>s'. handleKeyDown opts ArrowUp s = Inr (s', True) \<and>
            activeIndex s' = max (activeIndex s - 1) (- 1))"
    using xs by (simp add: handleKeyDown_def highlightActive_def)
  show ?thesis
    using xs r(1-3) h render_resets [OF xs, of opts] k e m
    by (intro exI [of _ xs]) auto
qed

text \<open>The sample widget of the JavaScript build after one ArrowDown.\<close>

theorem active_index_in_range_witness:
  "\<exists>xs. suggestions (demo_active JavaScript) = Arr xs \<and>
        - 1 \<le> activeIndex (demo_active JavaScript) \<and>
        activeIndex (demo_active JavaScript) \<le> int (length xs) - 1 \<and>
        int (length xs) \<le> maxSuggestions demo_opts"
proof -
  have m: "0 \<le> maxSuggestions demo_opts" by (simp add: demo_opts_def)
  show ?thesis
    using active_index_in_range [OF demo_attach demo_activate demo_typed m, of JavaScript]
    by blast
qed

subsection \<open>Text-only rendering by default\<close>

text \<open>
  Claim C10. With the default renderer and \<^verbatim>\<open>allowHTML\<close> left at \<^verbatim>\<open>false\<close>, every
  suggestion element's content is set as text from \<^verbatim>\<open>formatSelectedItem\<close>, and neither
  \<^verbatim>\<open>formatSuggestionHTML\<close> nor \<^verbatim>\<open>sanitizeHTML\<close> is ever invoked: no element of the panel
  holds markup. Stated for every state reached from the constructor.
\<close>

theorem text_only_by_default:
  assumes "new_Autocomplete b opts pg = Some s0" and "run b opts evs s0 = Inr s"
    and "renderSuggestion opts = DefaultRenderer" and "\<not> allowHTML opts"
  shows "(\<forall>el \<in> set (elements s). body el = TextContent (formatSelectedItem opts (item el))) \<and>
         (\<forall>x. FormatSuggestionHTML x \<notin> set (calls s)) \<and>
         (\<forall>h. SanitizeHTML h \<notin> set (calls s))"
proof -
  have "textOnly opts s"
    using assms by (auto dest: textOnly_new textOnly_run [rotated 2])
  then show ?thesis
    by (auto simp: textOnly_def list_all_iff isMarkupCall_def)
qed

text \<open>The two elements of the sample panel hold the country names as text.\<close>

theorem text_only_by_default_witness:
  "map body (elements (demo_shown TypeScript)) =
   [TextContent ''United States'', TextContent ''United Kingdom'']"
proof -
  have r: "renderSuggestion demo_opts = DefaultRenderer" "\<not> allowHTML demo_opts"
    "formatSelectedItem demo_opts = fst"
    by (simp_all add: demo_opts_def)
  have i: "map item (elements (demo_shown TypeScript)) =
           [(''United States'', 1), (''United Kingdom'', 2)]" by code_simp
  have "map body (elements (demo_shown TypeScript)) =
        map (\<lambda>el. TextContent (fst (item el))) (elements (demo_shown TypeScript))"
    using text_only_by_default [OF demo_attach demo_show r(1,2), of TypeScript]
    by (simp add: r(3))
  also have "\<dots> = map (\<lambda>x. TextContent (fst x)) (map item (elements (demo_shown TypeScript)))"
    by (simp add: comp_def)
  finally show ?thesis by (simp add: i)
qed

subsection \<open>The minimum length and the debounce timer\<close>

lemma handleInput_display:
  "displayNone (handleInput opts t) = (if schedulesFetch opts t then displayNone t else True)"
  "\<not> schedulesFetch opts t \<Longrightarrow> activeIndex (handleInput opts t) = - 1"
  by (auto simp: handleInput_def Let_def schedulesFetch_def setTimeout_def clearTimeout_def hide_def
      split: option.splits)

lemma handleInput_short:
  assumes "timersOk t" and "int (length (trim (inputValue t))) < minChars opts"
  shows "fetches (handleInput opts t) = fetches t \<and>
         (if trim (inputValue t) = [] \<and> focused t
          then pendingFetches (handleInput opts t) = [(now t + timerDelay (debounceTime opts), [])] \<and>
               displayNone (handleInput opts t) = displayNone t \<and>
               fetches (advance opts (timerDelay (debounceTime opts)) (handleInput opts t)) =
                 fetches t @ [[]]
          else displayNone (handleInput opts t) \<and> activeIndex (handleInput opts t) = - 1 \<and>
               pendingFetches (handleInput opts t) = [] \<and>
               (\<forall>d. fetches (advance opts d (handleInput opts t)) = fetches t))"
proof -
  let ?t' = "handleInput opts t"
  note h = handleInput_pending [OF assms(1), of opts]
  have g: "schedulesFetch opts t \<longleftrightarrow> trim (inputValue t) = [] \<and> focused t"
    using assms(2) by (auto simp: schedulesFetch_def)
  show ?thesis
  proof (cases "trim (inputValue t) = [] \<and> focused t")
    case True
    then have p: "pendingFetches ?t' = [(now t + timerDelay (debounceTime opts), [])]"
      using h(1) g by simp
    then have "length (pendingFetches ?t') \<le> 1" by simp
    from advance_fetches [OF this, of opts "timerDelay (debounceTime opts)"]
    have "fetches (advance opts (timerDelay (debounceTime opts)) ?t') = fetches t @ [[]]"
      by (simp add: p h(3) h(6))
    then show ?thesis using True p h(3) g by (simp add: handleInput_display)
  next
    case False
    then have p: "pendingFetches ?t' = []" using h(1) g by simp
    then have "length (pendingFetches ?t') \<le> 1" by simp
    from advance_fetches [OF this, of opts]
    have "fetches (advance opts d ?t') = fetches t" for d
      by (simp add: p h(3))
    moreover have "\<not> schedulesFetch opts t" using False g by simp
    ultimately show ?thesis using False p h(3) by (simp add: handleInput_display)
  qed
qed

text \<open>
  Claim C2. When an input or focus event fires and the trimmed value is shorter than
  \<^verbatim>\<open>minChars\<close>, the panel is hidden and no fetch is issued: the event itself does not call
  the suggestion source, no fetch is left in the timer table and no later moment brings
  one. The one case set apart is an empty trimmed value on the focused field: there the
  panel is left as it was and a fetch for the empty query is scheduled, due after the
  delay \<^verbatim>\<open>setTimeout\<close> applies to \<^verbatim>\<open>debounceTime\<close>, and it is made once that delay has passed.
\<close>

theorem short_input_hides:
  assumes "new_Autocomplete b opts pg = Some s0" and "run b opts evs s0 = Inr s"
    and "isInputEvent ev" and "step b opts ev s = Inr s'"
    and "int (length (trim (inputValue s'))) < minChars opts"
  shows "fetches s' = fetches s \<and>
         (if trim (inputValue s') = [] \<and> focused s'
          then pendingFetches s' = [(now s' + timerDelay (debounceTime opts), [])] \<and>
               displayNone s' = displayNone s \<and>
               fetches (advance opts (timerDelay (debounceTime opts)) s') = fetches s @ [[]]
          else displayNone s' \<and> activeIndex s' = - 1 \<and> pendingFetches s' = [] \<and>
               (\<forall>d. fetches (advance opts d s') = fetches s))"
proof -
  have ok: "timersOk s" using assms(1,2) by (auto dest: timersOk_new timersOk_run)
  show ?thesis
  proof (cases ev)
    case (Edit v)
    let ?t = "s\<lparr>inputValue := v\<rparr>"
    have s': "s' = handleInput opts ?t" using assms(4) Edit by (simp add: step_def)
    have t: "timersOk ?t" "fetches ?t = fetches s" "displayNone ?t = displayNone s"
      using ok by (simp_all add: timersOk_def fetches_def)
    note h = handleInput_pending [OF t(1), of opts]
    have short: "int (length (trim (inputValue ?t))) < minChars opts"
      using assms(5) h(4) by (simp add: s')
    show ?thesis
      using handleInput_short [OF t(1) short] h(4,5,6) t(2,3) by (simp add: s')
  next
    case Focus
    let ?t = "s\<lparr>focused := True\<rparr>"
    have s': "s' = handleInput opts ?t" using assms(4) Focus by (simp add: step_def)
    have t: "timersOk ?t" "fetches ?t = fetches s" "displayNone ?t = displayNone s"
      using ok by (simp_all add: timersOk_def fetches_def)
    note h = handleInput_pending [OF t(1), of opts]
    have short: "int (length (trim (inputValue ?t))) < minChars opts"
      using assms(5) h(4) by (simp add: s')
    show ?thesis
      using handleInput_short [OF t(1) short] h(4,5,6) t(2,3) by (simp add: s')
  qed (use assms(3) in \<open>simp_all add: isInputEvent_def\<close>)
qed

text \<open>
  The sample panel is on display when the user cuts the text down to \<^verbatim>\<open>U\<close>: the panel is
  hidden and no second fetch follows, however long one waits.
\<close>

theorem short_input_hides_witness:
  "displayNone (demo_short TypeScript) \<and> pendingFetches (demo_short TypeScript) = [] \<and>
   fetches (advance demo_opts 1000 (demo_short TypeScript)) = [''Uni'']"
proof -
  have e: "isInputEvent (Edit ''U'')" by (simp add: isInputEvent_def)
  have "\<not> isl (step TypeScript demo_opts (Edit ''U'') (demo_shown TypeScript))" by code_simp
  then have st: "step TypeScript demo_opts (Edit ''U'') (demo_shown TypeScript) =
                 Inr (demo_short TypeScript)"
    unfolding demo_short_def by simp
  have short: "int (length (trim (inputValue (demo_short TypeScript)))) < minChars demo_opts"
    by code_simp
  have ne: "\<not> (trim (inputValue (demo_short TypeScript)) = [] \<and> focused (demo_short TypeScript))"
    by code_simp
  have f: "fetches (demo_shown TypeScript) = [''Uni'']" by code_simp
  show ?thesis
    using short_input_hides [OF demo_attach demo_show e st short] ne f by simp
qed

text \<open>
  The case set apart, on the sample widget: when the user clears the focused field the
  panel stays on display and, 300 ms later, the source is called with the empty query. A
  field holding nothing but a no-break space is trimmed to the empty text and treated
  alike.
\<close>

lemma cleared_field_fetches:
  "int (length (trim (inputValue (demo_cleared TypeScript)))) < minChars demo_opts \<and>
   \<not> displayNone (demo_cleared TypeScript) \<and>
   fetches (advance demo_opts 300 (demo_cleared TypeScript)) =
     fetches (demo_cleared TypeScript) @ [[]]"
  by code_simp

text \<open>
  Claim C4, as amended. The debounce delay is the delay \<^verbatim>\<open>setTimeout\<close> applies to
  \<^verbatim>\<open>debounceTime\<close>: the option read as a signed 32-bit integer, a negative value as zero;
  it is \<^verbatim>\<open>debounceTime\<close> itself from \<open>0\<close> to \<^verbatim>\<open>2^31 - 1\<close>. When input and focus events follow
  one another with pauses shorter than this delay, each event cancels the pending debounce
  timer, so no fetch is made during the burst, and once the delay has passed after the
  last event at most one fetch has been made: exactly one, for the trimmed value at the
  last event, if that value is at least \<^verbatim>\<open>minChars\<close> long or is empty on the focused field,
  and none otherwise.
\<close>

theorem debounce_burst:
  assumes "new_Autocomplete b opts pg = Some s0" and "run b opts evs s0 = Inr s"
    and "isInputEvent e0"
    and "\<forall>(g, ev) \<in> set rest. g < timerDelay (debounceTime opts) \<and> isInputEvent ev"
    and "timerDelay (debounceTime opts) \<le> d"
  shows "\<exists>s1. run b opts (e0 # burst rest) s = Inr s1 \<and> fetches s1 = fetches s \<and>
           fetches (advance opts d s1) =
             fetches s @ (if schedulesFetch opts s1 then [trim (inputValue s1)] else [])"
proof -
  have ok: "timersOk s" using assms(1,2) by (auto dest: timersOk_new timersOk_run)
  from input_event_settles [OF ok assms(3), of b opts]
  obtain s' where s': "step b opts e0 s = Inr s'" "settledInput opts (fetches s) s'" by auto
  from burst_settles [OF s'(2) assms(4), of b]
  obtain s1 where s1: "run b opts (burst rest) s' = Inr s1" "settledInput opts (fetches s) s1"
    by auto
  have "run b opts (e0 # burst rest) s = Inr s1" using s'(1) s1(1) by simp
  moreover have "fetches s1 = fetches s" using s1(2) by (simp add: settledInput_def)
  moreover note settled_then_wait [OF s1(2) assms(5)]
  ultimately show ?thesis by blast
qed

text \<open>Typing \<^verbatim>\<open>Uni\<close> letter by letter makes one fetch, for \<^verbatim>\<open>Uni\<close>.\<close>

theorem debounce_burst_witness:
  "\<exists>s1. run TypeScript demo_opts demo_typing (demo_attached TypeScript) = Inr s1 \<and>
        fetches (advance demo_opts 300 s1) = [''Uni'']"
proof -
  let ?r = "run TypeScript demo_opts demo_typing (demo_attached TypeScript)"
  have r0: "run TypeScript demo_opts [] (demo_attached TypeScript) = Inr (demo_attached TypeScript)"
    by simp
  have e: "isInputEvent Focus" by (simp add: isInputEvent_def)
  have g: "\<forall>(g, ev) \<in> set [(100, Edit ''U''), (100, Edit ''Un''), (100, Edit ''Uni'')].
             g < timerDelay (debounceTime demo_opts) \<and> isInputEvent ev"
    by (simp add: isInputEvent_def demo_opts_def timerDelay_def toInt32_def)
  have d: "timerDelay (debounceTime demo_opts) \<le> 300"
    by (simp add: demo_opts_def timerDelay_def toInt32_def)
  have p: "schedulesFetch demo_opts (projr ?r)" by code_simp
  have v: "trim (inputValue (projr ?r)) = ''Uni''" by code_simp
  have f: "fetches (demo_attached TypeScript) = []" by code_simp
  from debounce_burst [OF demo_attach r0 e g d]
  obtain s1 where s1: "?r = Inr s1"
    "fetches (advance demo_opts 300 s1) =
       fetches (demo_attached TypeScript) @
       (if schedulesFetch demo_opts s1 then [trim (inputValue s1)] else [])"
    unfolding demo_typing_def by blast
  from s1(1) have "projr ?r = s1" by simp
  with p v f s1 show ?thesis by auto
qed

text \<open>
  The claim as first stated has every burst end in exactly one fetch. Typing \<^verbatim>\<open>Un\<close> and
  deleting the last letter within the debounce delay ends in none.
\<close>

theorem burst_ending_short_fetches_nothing:
  "\<not> isl (run TypeScript demo_opts demo_backspace (demo_attached TypeScript)) \<and>
   fetches (advance demo_opts 300
              (projr (run TypeScript demo_opts demo_backspace (demo_attached TypeScript)))) = []"
  by code_simp

subsection \<open>Teardown and malformed results on the sample page\<close>

text \<open>
  Claim C9. \<^verbatim>\<open>destroy\<close> is to detach every listener that attachment registered. On the
  sample page it detaches none, in either build: each \<^verbatim>\<open>removeEventListener\<close> call is
  given a function freshly made by \<^verbatim>\<open>bind\<close>, which is not the function that was
  registered, and the blur listener (in the TypeScript build also the window's scroll
  listener) is not even asked to be removed.
\<close>

theorem destroy_leaves_listeners:
  "map_option registered (destroy TypeScript (demo_attached TypeScript)) =
     Some [(InputElement, ''input'', HandleInput), (InputElement, ''focus'', HandleInput),
           (InputElement, ''blur'', BlurHandler), (InputElement, ''keydown'', HandleKeyDown),
           (Window, ''resize'', HandlePositionUpdate), (Window, ''scroll'', HandlePositionUpdate)] \<and>
   map_option registered (destroy JavaScript (demo_attached JavaScript)) =
     Some [(InputElement, ''input'', HandleInput), (InputElement, ''focus'', HandleInput),
           (InputElement, ''blur'', BlurHandler), (InputElement, ''keydown'', HandleKeyDown),
           (Window, ''resize'', HandlePositionUpdate), (Other 0, ''scroll'', HandlePositionUpdate),
           (Body, ''scroll'', HandlePositionUpdate), (Window, ''scroll'', HandlePositionUpdate)]"
  by code_simp

text \<open>
  Claim C6. A malformed result is to be treated as no suggestions and not passed on. In
  the JavaScript build a result of \<^verbatim>\<open>undefined\<close> that arrives while the panel is on display
  is stored in \<^verbatim>\<open>this.suggestions\<close> before the guard looks at it: the panel stays on
  display with the old elements, and the next ArrowDown raises a type error out of the
  key handler.
\<close>

theorem undefined_result_breaks_keys:
  "\<not> isl (run JavaScript flaky_opts flaky_session (flaky_attached JavaScript)) \<and>
   \<not> displayNone (projr (run JavaScript flaky_opts flaky_session (flaky_attached JavaScript))) \<and>
   suggestions (projr (run JavaScript flaky_opts flaky_session (flaky_attached JavaScript))) =
     Nullish \<and>
   map item
     (elements (projr (run JavaScript flaky_opts flaky_session (flaky_attached JavaScript)))) =
     [(''United States'', 1), (''United Kingdom'', 2)] \<and>
   isl (run JavaScript flaky_opts (flaky_session @ [KeyDown ArrowDown]) (flaky_attached JavaScript)) \<and>
   projl (run JavaScript flaky_opts (flaky_session @ [KeyDown ArrowDown])
            (flaky_attached JavaScript)) = TypeError"
  by code_simp

text \<open>
  The TypeScript build has no guard, yet ends the same session with the panel hidden:
  \<^verbatim>\<open>slice\<close> raises on \<^verbatim>\<open>undefined\<close> inside the \<^verbatim>\<open>try\<close> block, and the \<^verbatim>\<open>catch\<close> block logs and hides.
\<close>

lemma ts_same_session:
  "\<not> isl (run TypeScript flaky_opts flaky_session (flaky_attached TypeScript)) \<and>
   displayNone (projr (run TypeScript flaky_opts flaky_session (flaky_attached TypeScript))) \<and>
   last (calls (projr (run TypeScript flaky_opts flaky_session (flaky_attached TypeScript)))) =
     ConsoleError"
  by code_simp

subsection \<open>The example of the specification\<close>

text \<open>
  The source returns Canada for the query \<^verbatim>\<open>can\<close>; after the debounce delay the panel shows
  one item reading Canada; ArrowDown and then Enter set the input to Canada, call
  \<^verbatim>\<open>onSelect\<close> once with the item and hide the panel.
\<close>

lemma canada_example:
  "\<not> displayNone (projr (run TypeScript demo_opts demo_canada (demo_attached TypeScript))) \<and>
   map body (elements (projr (run TypeScript demo_opts demo_canada (demo_attached TypeScript)))) =
     [TextContent ''Canada''] \<and>
   inputValue (projr (run TypeScript demo_opts (demo_canada @ [KeyDown ArrowDown, KeyDown Enter])
                        (demo_attached TypeScript))) = ''Canada'' \<and>
   filter (\<lambda>c. case c of OnSelect x \<Rightarrow> True | _ \<Rightarrow> False)
     (calls (projr (run TypeScript demo_opts (demo_canada @ [KeyDown ArrowDown, KeyDown Enter])
                      (demo_attached TypeScript)))) = [OnSelect (''Canada'', 3)] \<and>
   displayNone (projr (run TypeScript demo_opts (demo_canada @ [KeyDown ArrowDown, KeyDown Enter])
                         (demo_attached TypeScript)))"
  by code_simp

subsection \<open>Faults of the suggestion source\<close>

text \<open>
  Neither the timer callback nor the settling of a promise raises. A promise that rejects
  and a source that throws are both logged once and hide the panel; a source that throws
  leaves no promise pending.
\<close>

lemma fetch_faults_contained:
  "(\<exists>s'. step b opts (Settle n lay) s = Inr s') \<and>
   (\<exists>s'. step b opts (Advance d) s = Inr s') \<and>
   displayNone (land b opts lay Rejected s) \<and>
   calls (land b opts lay Rejected s) = calls s @ [ConsoleError] \<and>
   (getSuggestions opts q = Throws \<longrightarrow>
      displayNone (fetchStart opts q s) \<and>
      calls (fetchStart opts q s) = calls s @ [GetSuggestions q, ConsoleError] \<and>
      inflight (fetchStart opts q s) = inflight s)"
  by (simp add: step_def land_def catchError_def hide_def fetchStart_def Let_def)

text \<open>A source that throws, called while the sample panel is on display.\<close>

lemma fetch_faults_contained_witness:
  "displayNone (fetchStart broken_opts ''ab'' (demo_shown TypeScript)) \<and>
   calls (fetchStart broken_opts ''ab'' (demo_shown TypeScript)) =
     calls (demo_shown TypeScript) @ [GetSuggestions ''ab'', ConsoleError]"
proof -
  have "getSuggestions broken_opts ''ab'' = Throws" by (simp add: broken_opts_def)
  then show ?thesis
    using fetch_faults_contained [of TypeScript broken_opts 0 demo_layout "demo_shown TypeScript"
        0 "''ab''"]
    by simp
qed

subsection \<open>Teardown in general\<close>

lemma removeBound_fresh:
  assumes "freshFn s"
  shows "listeners (removeBound n ty s) = listeners s" and "freshFn (removeBound n ty s)"
proof -
  have "filter (\<lambda>l. \<not> (target l = n \<and> etype l = ty \<and> ident l = nextFn s)) (listeners s) =
        listeners s"
    using assms by (auto simp: freshFn_def list_all_iff filter_id_conv)
  then show "listeners (removeBound n ty s) = listeners s"
    by (simp add: removeBound_def bind_def removeEventListener_def)
  then show "freshFn (removeBound n ty s)"
    using assms
    by (auto simp: freshFn_def list_all_iff removeBound_def bind_def removeEventListener_def
        intro: less_SucI)
qed

lemma addBound_fresh: "freshFn s \<Longrightarrow> freshFn (addBound n ty h s)"
  by (auto simp: freshFn_def list_all_iff addBound_def bind_def addEventListener_def
      intro: less_SucI)

lemma removeScrollListeners_fresh:
  assumes "removeScrollListeners p s = Some s'"
  shows "freshFn s \<longrightarrow> listeners s' = listeners s \<and> freshFn s'"
proof (rule removeScrollListeners.raw_induct
    [where P = "\<lambda>p s s'. freshFn s \<longrightarrow> listeners s' = listeners s \<and> freshFn s'", OF _ assms])
  fix f and p :: "node option" and s s' :: "'a state"
  assume IH: "\<And>p s s'. f p s = Some s' \<Longrightarrow>
                freshFn s \<longrightarrow> listeners s' = listeners s \<and> freshFn s'"
    and body: "(case p of None \<Rightarrow> Some s
                | Some n \<Rightarrow> f (parent s n) (removeBound n ''scroll'' s)) = Some s'"
  show "freshFn s \<longrightarrow> listeners s' = listeners s \<and> freshFn s'"
  proof (cases p)
    case None
    with body show ?thesis by simp
  next
    case (Some n)
    with body have "f (parent s n) (removeBound n ''scroll'' s) = Some s'" by simp
    from IH [OF this] show ?thesis by (auto simp: removeBound_fresh)
  qed
qed

lemma addScrollListeners_fresh:
  assumes "addScrollListeners p s = Some s'"
  shows "freshFn s \<longrightarrow> freshFn s'"
proof (rule addScrollListeners.raw_induct
    [where P = "\<lambda>p s s'. freshFn s \<longrightarrow> freshFn s'", OF _ assms])
  fix f and p :: "node option" and s s' :: "'a state"
  assume IH: "\<And>p s s'. f p s = Some s' \<Longrightarrow> freshFn s \<longrightarrow> freshFn s'"
    and body: "(case p of None \<Rightarrow> Some s
                | Some n \<Rightarrow> f (parent s n) (addBound n ''scroll'' HandlePositionUpdate s)) =
               Some s'"
  show "freshFn s \<longrightarrow> freshFn s'"
  proof (cases p)
    case None
    with body show ?thesis by simp
  next
    case (Some n)
    with body have "f (parent s n) (addBound n ''scroll'' HandlePositionUpdate s) = Some s'"
      by simp
    from IH [OF this] show ?thesis by (auto simp: addBound_fresh)
  qed
qed

lemma freshFn_dom:
  "freshFn (removeChild p c s) = freshFn s"
  "freshFn (insertBefore p c r s) = freshFn s"
  "freshFn (appendChild p c s) = freshFn s"
  by (simp_all add: freshFn_def removeChild_def insertBefore_def appendChild_def detach_def
      Let_def split: option.splits)

lemma listeners_dom:
  "listeners (removeChild p c s) = listeners s"
  "listeners (insertBefore p c r s) = listeners s"
  "listeners (appendChild p c s) = listeners s"
  by (simp_all add: removeChild_def insertBefore_def appendChild_def detach_def
      Let_def split: option.splits)

text \<open>
  Whatever the page: once every registered function object is older than the next one
  \<open>bind\<close> makes, \<^verbatim>\<open>destroy\<close> takes no listener out of the table.
\<close>

lemma destroy_removes_nothing:
  assumes "destroy b s = Some s'" and "freshFn s"
  shows "listeners s' = listeners s"
proof -
  define s1 where "s1 =
    (if wrapper s then
       (let t = s\<lparr>paddingRight := []\<rparr>
        in case parent t Wrapper of
             None \<Rightarrow> t
           | Some p \<Rightarrow> removeChild p Wrapper (insertBefore p InputElement Wrapper t))
     else s)"
  define s2 where "s2 = (case parent s1 Container of None \<Rightarrow> s1 | Some p \<Rightarrow> removeChild p Container s1)"
  define s5 where "s5 = removeBound InputElement ''keydown''
                          (removeBound InputElement ''focus'' (removeBound InputElement ''input'' s2))"
  have f0: "freshFn (s\<lparr>paddingRight := []\<rparr>)" "listeners (s\<lparr>paddingRight := []\<rparr>) = listeners s"
    using assms(2) by (simp_all add: freshFn_def)
  have f1: "freshFn s1 \<and> listeners s1 = listeners s"
    using assms(2) f0
    by (auto simp: s1_def Let_def freshFn_dom listeners_dom split: option.splits)
  have f2: "freshFn s2 \<and> listeners s2 = listeners s"
    using f1 by (auto simp: s2_def freshFn_dom listeners_dom split: option.splits)
  have f5: "freshFn s5 \<and> listeners s5 = listeners s"
    using f2 by (simp add: s5_def removeBound_fresh)
  have d: "destroy b s =
      (case b of
         TypeScript \<Rightarrow> Some (removeBound Window ''resize'' s5)
       | JavaScript \<Rightarrow>
           (case removeScrollListeners (parent s5 InputElement) s5 of
              None \<Rightarrow> None
            | Some s6 \<Rightarrow>
                Some (removeBound Window ''resize'' (removeBound Window ''scroll'' s6))))"
    unfolding destroy_def s1_def s2_def s5_def Let_def by (rule refl)
  from assms(1) have r:
    "(case b of
         TypeScript \<Rightarrow> Some (removeBound Window ''resize'' s5)
       | JavaScript \<Rightarrow>
           (case removeScrollListeners (parent s5 InputElement) s5 of
              None \<Rightarrow> None
            | Some s6 \<Rightarrow>
                Some (removeBound Window ''resize'' (removeBound Window ''scroll'' s6)))) = Some s'"
    by (simp only: d)
  show ?thesis
  proof (cases b)
    case TypeScript
    then show ?thesis using r f5 by (auto simp: removeBound_fresh)
  next
    case JavaScript
    with r obtain s6 where
      s6: "removeScrollListeners (parent s5 InputElement) s5 = Some s6"
      and s': "s' = removeBound Window ''resize'' (removeBound Window ''scroll'' s6)"
      by (auto split: option.splits)
    from removeScrollListeners_fresh [OF s6] f5
    have "freshFn s6" "listeners s6 = listeners s" by auto
    then show ?thesis by (simp add: s' removeBound_fresh)
  qed
qed

lemma setupEventListeners_fresh:
  assumes "setupEventListeners b s = Some s'" and "freshFn s"
  shows "freshFn s'"
proof -
  define s6 where "s6 =
    addBound Window ''resize'' HandlePositionUpdate
      (addBound InputElement ''keydown'' HandleKeyDown
        (let s3 = addBound InputElement ''blur'' BlurHandler
                    (addBound InputElement ''focus'' HandleInput
                      (addBound InputElement ''input'' HandleInput s))
         in if dropdownIcon s3 then addBound DropdownIcon ''click'' IconClickHandler s3 else s3))"
  have f6: "freshFn s6" using assms(2) by (simp add: s6_def Let_def addBound_fresh)
  have d: "setupEventListeners b s =
      (case b of
         TypeScript \<Rightarrow> Some (addBound Window ''scroll'' HandlePositionUpdate s6)
       | JavaScript \<Rightarrow>
           (case addScrollListeners (parent s6 InputElement) s6 of
              None \<Rightarrow> None
            | Some s7 \<Rightarrow> Some (addBound Window ''scroll'' HandlePositionUpdate s7)))"
    unfolding setupEventListeners_def s6_def Let_def by (rule refl)
  from assms(1) have r:
    "(case b of
         TypeScript \<Rightarrow> Some (addBound Window ''scroll'' HandlePositionUpdate s6)
       | JavaScript \<Rightarrow>
           (case addScrollListeners (parent s6 InputElement) s6 of
              None \<Rightarrow> None
            | Some s7 \<Rightarrow> Some (addBound Window ''scroll'' HandlePositionUpdate s7))) = Some s'"
    by (simp only: d)
  show ?thesis
  proof (cases b)
    case TypeScript
    then show ?thesis using r f6 by (auto simp: addBound_fresh)
  next
    case JavaScript
    with r obtain s7 where
      s7: "addScrollListeners (parent s6 InputElement) s6 = Some s7"
      and s': "s' = addBound Window ''scroll'' HandlePositionUpdate s7"
      by (auto split: option.splits)
    from addScrollListeners_fresh [OF s7] f6 have "freshFn s7" by auto
    then show ?thesis by (simp add: s' addBound_fresh)
  qed
qed

lemma new_Autocomplete_fresh:
  assumes "new_Autocomplete b opts pg = Some s0" and "freshFn pg"
  shows "freshFn s0"
proof -
  let ?s0 = "pg\<lparr>suggestions := Arr [], activeIndex := - 1, debounceTimer := None,
                 wrapper := False, dropdownIcon := False, displayNone := True,
                 elements := [],
                 cssPosition := panelPosition b,
                 styleWidth := None, styleLeft := None, styleTop := None,
                 classAbove := False, classBelow := False, iconActive := False,
                 timers := [], inflight := [], calls := []\<rparr>"
  let ?s1 = "appendChild Body Container ?s0"
  let ?s2 = "if showDropdownIcon opts then setupDropdownIcon ?s1 else ?s1"
  have "freshFn ?s0" using assms(2) by (simp add: freshFn_def)
  then have "freshFn ?s1" by (simp add: freshFn_dom)
  moreover have "freshFn (setupDropdownIcon t) = freshFn t" for t :: "'a state"
    by (simp add: setupDropdownIcon_def Let_def freshFn_def listeners_dom
        appendChild_def insertBefore_def detach_def removeChild_def split: option.splits)
  ultimately have "freshFn ?s2" by simp
  moreover have "setupEventListeners b ?s2 = Some s0"
    using assms(1) by (simp add: new_Autocomplete_def Let_def)
  ultimately show ?thesis by (rule setupEventListeners_fresh [rotated])
qed

text \<open>
  With the icon switched on, \<^verbatim>\<open>destroy\<close> does put the sample page's input back between its
  siblings, clears the padding and takes the panel out of the body.
\<close>

lemma destroy_unwraps_input:
  "map_option (\<lambda>s. (kids s (Other 0), parent s InputElement, kids s Body, parent s Container,
                    paddingRight s))
     (destroy TypeScript (icon_attached TypeScript)) =
   Some ([Other 1, InputElement, Other 2], Some (Other 0), [Other 0], None, [])"
  "(kids (icon_attached TypeScript) (Other 0), parent (icon_attached TypeScript) InputElement,
    kids (icon_attached TypeScript) Wrapper, kids (icon_attached TypeScript) Body,
    paddingRight (icon_attached TypeScript)) =
   ([Other 1, Wrapper, Other 2], Some Wrapper, [InputElement, DropdownIcon],
    [Other 0, Container], ''30px'')"
  by code_simp+

end
